theory Spec2Isabelle
  imports Complex_Main
begin

section \<open>Tensors and the framework operations the script calls\<close>

text \<open>
  The script \<^verbatim>\<open>cnn_mnist.py\<close> builds a TensorFlow graph (\<^verbatim>\<open>cnn_model_fn\<close>) and hands it
  to an Estimator (\<^verbatim>\<open>main\<close>). The graph is data: \<^verbatim>\<open>cnn_model_fn\<close> is embedded as the
  function that returns it. What a graph computes is given by \<open>run\<close>, which interprets
  each operation by the documented meaning of the framework call of the same name.

  A tensor is a shape and a row-major buffer. Entries of float tensors are real numbers:
  the arithmetic that \<^verbatim>\<open>float32\<close> approximates. Rounding, overflow and NaN are not
  modelled, so nothing below speaks of what rounding decides: whether a row of
  probabilities sums to exactly 1, or which of two nearly equal probabilities is the
  larger. Integer tensors hold the labels (\<^verbatim>\<open>int32\<close>) and the class indices.
\<close>

datatype error = KeyError | InvalidArgument | NotFound

datatype dtype = Float32 | Int32 | Int64

datatype val = FloatV "nat list" "real list" | IntV "nat list" "int list"

fun shape_of :: "val \<Rightarrow> nat list" where
  "shape_of (FloatV sh xs) = sh"
| "shape_of (IntV sh ks) = sh"

fun with_shape :: "nat list \<Rightarrow> val \<Rightarrow> val" where
  "with_shape sh (FloatV _ xs) = FloatV sh xs"
| "with_shape sh (IntV _ ks) = IntV sh ks"

text \<open>A tensor's buffer holds exactly as many entries as its shape says.\<close>

fun wf_val :: "val \<Rightarrow> bool" where
  "wf_val (FloatV sh xs) = (length xs = prod_list sh)"
| "wf_val (IntV sh ks) = (length ks = prod_list sh)"

datatype padding = SAME | VALID

datatype activation = Relu | NoActivation

fun act_fn :: "activation \<Rightarrow> real \<Rightarrow> real" where
  "act_fn Relu x = max 0 x"
| "act_fn NoActivation x = x"

text \<open>
  The trainable variables of a layer: a kernel, read at a multi-index, and a bias. The
  layers create them to fit their input, so they are total functions here. A checkpoint
  maps each layer's variable scope to its variables.
\<close>

record layer_vars =
  kernel :: "nat list \<Rightarrow> real"
  bias :: "nat \<Rightarrow> real"

type_synonym variables = "string \<Rightarrow> layer_vars"

subsection \<open>\<^verbatim>\<open>tf.reshape\<close>\<close>

text \<open>
  At most one entry of the requested shape is the wildcard \<open>-1\<close>; it is inferred from the
  number of elements, which the other entries must divide. Without a wildcard the
  requested shape must hold exactly the elements of the tensor. The buffer is unchanged.
\<close>

definition tf_reshape :: "int list \<Rightarrow> val \<Rightarrow> error + val" where
  "tf_reshape dims v =
     (let total = prod_list (shape_of v);
          known = prod_list (map nat (filter (\<lambda>d. d \<noteq> - 1) dims));
          wild = length (filter (\<lambda>d. d = - 1) dims)
      in if list_all (\<lambda>d. - 1 \<le> d) dims \<and> wild \<le> 1 then
           (if wild = 1 then
              (if 0 < known \<and> total mod known = 0
               then Inr (with_shape (map (\<lambda>d. if d = - 1 then total div known else nat d) dims) v)
               else Inl InvalidArgument)
            else if known = total then Inr (with_shape (map nat dims) v)
            else Inl InvalidArgument)
         else Inl InvalidArgument)"

subsection \<open>\<^verbatim>\<open>tf.layers.conv2d\<close> and \<^verbatim>\<open>tf.layers.max_pooling2d\<close>\<close>

text \<open>
  Entry \<open>(n, i, j, ch)\<close> of a \<open>[b, h, w, c]\<close> tensor; outside the image it is the zero of
  the padding.
\<close>

definition at4 :: "nat \<Rightarrow> nat \<Rightarrow> nat \<Rightarrow> real list \<Rightarrow> nat \<Rightarrow> int \<Rightarrow> int \<Rightarrow> nat \<Rightarrow> real" where
  "at4 h w c xs n i j ch =
     (if 0 \<le> i \<and> i < int h \<and> 0 \<le> j \<and> j < int w
      then xs ! (((n * h + nat i) * w + nat j) * c + ch) else 0)"

text \<open>
  A convolution with stride 1. With \<open>SAME\<close> padding the output keeps the height and width
  of the input, and a window of odd size is centred on its pixel; with \<open>VALID\<close> padding
  only windows inside the image are taken.
\<close>

fun tf_layers_conv2d :: "layer_vars \<Rightarrow> nat \<Rightarrow> nat \<times> nat \<Rightarrow> padding \<Rightarrow> activation \<Rightarrow> val \<Rightarrow> error + val" where
  "tf_layers_conv2d lv filters (kh, kw) pad act (FloatV [b, h, w, c] xs) =
     (let oh = (case pad of SAME \<Rightarrow> h | VALID \<Rightarrow> h + 1 - kh);
          ow = (case pad of SAME \<Rightarrow> w | VALID \<Rightarrow> w + 1 - kw);
          ph = (case pad of SAME \<Rightarrow> (kh - 1) div 2 | VALID \<Rightarrow> 0);
          pw = (case pad of SAME \<Rightarrow> (kw - 1) div 2 | VALID \<Rightarrow> 0)
      in if 0 < kh \<and> 0 < kw \<and> (pad = SAME \<or> (kh \<le> h \<and> kw \<le> w)) then
           Inr (FloatV [b, oh, ow, filters]
             [act_fn act (bias lv f +
                 sum_list [at4 h w c xs n (int i + int di - int ph) (int j + int dj - int pw) ch
                             * kernel lv [di, dj, ch, f].
                           di \<leftarrow> [0..<kh], dj \<leftarrow> [0..<kw], ch \<leftarrow> [0..<c]]).
              n \<leftarrow> [0..<b], i \<leftarrow> [0..<oh], j \<leftarrow> [0..<ow], f \<leftarrow> [0..<filters]])
         else Inl InvalidArgument)"
| "tf_layers_conv2d lv filters ksize pad act v = Inl InvalidArgument"

fun maximum :: "real list \<Rightarrow> real" where
  "maximum [] = 0"
| "maximum (x # xs) = fold max xs x"

text \<open>Max pooling with the default \<open>VALID\<close> padding: only whole windows are taken.\<close>

fun tf_layers_max_pooling2d :: "nat \<times> nat \<Rightarrow> nat \<Rightarrow> val \<Rightarrow> error + val" where
  "tf_layers_max_pooling2d (ph, pw) s (FloatV [b, h, w, c] xs) =
     (if 0 < s \<and> 0 < ph \<and> 0 < pw \<and> ph \<le> h \<and> pw \<le> w then
        Inr (FloatV [b, (h - ph) div s + 1, (w - pw) div s + 1, c]
          [maximum [at4 h w c xs n (int (i * s + di)) (int (j * s + dj)) ch.
                      di \<leftarrow> [0..<ph], dj \<leftarrow> [0..<pw]].
           n \<leftarrow> [0..<b], i \<leftarrow> [0..<(h - ph) div s + 1], j \<leftarrow> [0..<(w - pw) div s + 1],
           ch \<leftarrow> [0..<c]])
      else Inl InvalidArgument)"
| "tf_layers_max_pooling2d psize s v = Inl InvalidArgument"

subsection \<open>\<^verbatim>\<open>tf.layers.dense\<close> and \<^verbatim>\<open>tf.layers.dropout\<close>\<close>

text \<open>
  A dense layer on a batch of vectors (the only rank the script gives it): every output
  unit is the activation of a weighted sum of the inputs plus a bias.
\<close>

fun tf_layers_dense :: "layer_vars \<Rightarrow> nat \<Rightarrow> activation \<Rightarrow> val \<Rightarrow> error + val" where
  "tf_layers_dense lv units act (FloatV [b, d] xs) =
     Inr (FloatV [b, units]
       [act_fn act (sum_list [xs ! (n * d + k) * kernel lv [k, u]. k \<leftarrow> [0..<d]] + bias lv u).
        n \<leftarrow> [0..<b], u \<leftarrow> [0..<units]])"
| "tf_layers_dense lv units act v = Inl InvalidArgument"

text \<open>
  Dropout draws one uniform sample \<open>rng i\<close> in \<open>[0, 1)\<close> per entry. In training an entry is
  kept, and scaled by \<open>1 / (1 - rate)\<close>, when \<open>(1 - rate) + rng i\<close> reaches 1, and zeroed
  otherwise. Outside training the layer returns its input.
\<close>

fun tf_layers_dropout :: "(nat \<Rightarrow> real) \<Rightarrow> real \<Rightarrow> bool \<Rightarrow> val \<Rightarrow> error + val" where
  "tf_layers_dropout rng rate training (FloatV sh xs) =
     (if training
      then Inr (FloatV sh [xs ! i / (1 - rate) * of_int \<lfloor>(1 - rate) + rng i\<rfloor>. i \<leftarrow> [0..<length xs]])
      else Inr (FloatV sh xs))"
| "tf_layers_dropout rng rate training (IntV sh ks) =
     (if training then Inl InvalidArgument else Inr (IntV sh ks))"

subsection \<open>\<^verbatim>\<open>tf.argmax\<close>, \<^verbatim>\<open>tf.nn.softmax\<close>, \<^verbatim>\<open>tf.cast\<close>, \<^verbatim>\<open>tf.one_hot\<close>\<close>

definition row :: "nat \<Rightarrow> 'a list \<Rightarrow> nat \<Rightarrow> 'a list" where
  "row n xs i = take n (drop (i * n) xs)"

text \<open>The first index at which a vector takes its largest value.\<close>

definition argmax_row :: "real list \<Rightarrow> nat" where
  "argmax_row xs = length (takeWhile (\<lambda>x. x < maximum xs) xs)"

text \<open>The script takes the argmax of a \<open>[batch, classes]\<close> tensor along axis 1.\<close>

fun tf_argmax :: "nat \<Rightarrow> val \<Rightarrow> error + val" where
  "tf_argmax axis (FloatV [b, n] xs) =
     (if axis = 1 \<and> 0 < n
      then Inr (IntV [b] [int (argmax_row (row n xs i)). i \<leftarrow> [0..<b]])
      else Inl InvalidArgument)"
| "tf_argmax axis v = Inl InvalidArgument"

definition softmax_row :: "real list \<Rightarrow> real list" where
  "softmax_row xs = map (\<lambda>x. exp x / sum_list (map exp xs)) xs"

fun tf_nn_softmax :: "val \<Rightarrow> error + val" where
  "tf_nn_softmax (FloatV [b, n] xs) = Inr (FloatV [b, n] (concat [softmax_row (row n xs i). i \<leftarrow> [0..<b]]))"
| "tf_nn_softmax v = Inl InvalidArgument"

definition truncate :: "real \<Rightarrow> int" where
  "truncate x = (if 0 \<le> x then \<lfloor>x\<rfloor> else \<lceil>x\<rceil>)"

fun tf_cast :: "dtype \<Rightarrow> val \<Rightarrow> error + val" where
  "tf_cast Float32 (FloatV sh xs) = Inr (FloatV sh xs)"
| "tf_cast Float32 (IntV sh ks) = Inr (FloatV sh (map of_int ks))"
| "tf_cast dt (FloatV sh xs) = Inr (IntV sh (map truncate xs))"
| "tf_cast dt (IntV sh ks) = Inr (IntV sh ks)"

text \<open>
  One-hot encoding appends an axis of length \<open>depth\<close>: the entry at the index is 1 and
  every other entry is 0. An index that names no position of the axis (negative, or
  \<open>depth\<close> and beyond) leaves the whole row 0.
\<close>

definition one_hot_row :: "nat \<Rightarrow> int \<Rightarrow> real list" where
  "one_hot_row depth k = [if k = int j then 1 else 0. j \<leftarrow> [0..<depth]]"

fun tf_one_hot :: "nat \<Rightarrow> val \<Rightarrow> error + val" where
  "tf_one_hot depth (IntV sh ks) = Inr (FloatV (sh @ [depth]) (concat (map (one_hot_row depth) ks)))"
| "tf_one_hot depth (FloatV sh xs) = Inl InvalidArgument"

subsection \<open>\<^verbatim>\<open>tf.losses.softmax_cross_entropy\<close>\<close>

text \<open>
  The cross-entropy of one example is minus the sum, over the classes, of the label entry
  times the logarithm of the softmax of the logits. With the default weight 1 and the
  default reduction the loss is the mean over the batch, a scalar (and 0 on an empty
  batch). Labels and logits must have the same shape.
\<close>

definition cross_entropy_row :: "real list \<Rightarrow> real list \<Rightarrow> real" where
  "cross_entropy_row ys ls = - sum_list (map2 (\<lambda>y p. y * ln p) ys (softmax_row ls))"

fun tf_losses_softmax_cross_entropy :: "val \<Rightarrow> val \<Rightarrow> error + val" where
  "tf_losses_softmax_cross_entropy (FloatV [b, n] ys) (FloatV sh ls) =
     (if sh = [b, n]
      then Inr (FloatV []
             [if b = 0 then 0
              else sum_list [cross_entropy_row (row n ys i) (row n ls i). i \<leftarrow> [0..<b]] / real b])
      else Inl InvalidArgument)"
| "tf_losses_softmax_cross_entropy onehot_labels logits = Inl InvalidArgument"

section \<open>The graph\<close>

text \<open>
  The operations of the graph, each with the hyperparameters the script passes. \<open>Input\<close>
  is a tensor the input function produces (an image batch, a label batch);
  \<open>Placeholder\<close> is \<^verbatim>\<open>tf.placeholder\<close>, fed by the caller, whose declared shape leaves a
  dimension open with \<open>None\<close>; a layer carries the variable scope under which its
  variables are stored.
\<close>

fun is_float :: "val \<Rightarrow> bool" where
  "is_float (FloatV sh xs) = True"
| "is_float (IntV sh ks) = False"

text \<open>A fed tensor fits a declared shape when every declared dimension agrees.\<close>

fun compatible :: "nat option list \<Rightarrow> nat list \<Rightarrow> bool" where
  "compatible [] [] = True"
| "compatible (None # ds) (n # ns) = compatible ds ns"
| "compatible (Some d # ds) (n # ns) = (d = n \<and> compatible ds ns)"
| "compatible ds ns = False"

datatype node =
    Input string
  | Placeholder string dtype "nat option list"
  | Reshape node "int list"
  | Conv2d node nat "nat \<times> nat" padding activation string
  | MaxPooling2d node "nat \<times> nat" nat
  | Dense node nat activation string
  | Dropout node real bool
  | ArgMax node nat
  | Softmax node string
  | Cast node dtype
  | OneHot node nat
  | SoftmaxCrossEntropy node node

text \<open>
  One run of the graph: \<open>V\<close> is the checkpoint, \<open>rng\<close> the random samples of the run and
  \<open>fd\<close> the tensors of the inputs. An operation that rejects its argument fails the run.
\<close>

fun run :: "variables \<Rightarrow> (nat \<Rightarrow> real) \<Rightarrow> (string \<rightharpoonup> val) \<Rightarrow> node \<Rightarrow> error + val" where
  "run V rng fd (Input k) =
     (case fd k of None \<Rightarrow> Inl KeyError
      | Some v \<Rightarrow> if wf_val v then Inr v else Inl InvalidArgument)"
| "run V rng fd (Placeholder k dt sh) =
     (case fd k of None \<Rightarrow> Inl KeyError
      | Some v \<Rightarrow>
          if wf_val v \<and> is_float v = (dt = Float32) \<and> compatible sh (shape_of v)
          then Inr v else Inl InvalidArgument)"
| "run V rng fd (Reshape n dims) =
     (case run V rng fd n of Inl e \<Rightarrow> Inl e | Inr v \<Rightarrow> tf_reshape dims v)"
| "run V rng fd (Conv2d n filters ksize pad act scope) =
     (case run V rng fd n of Inl e \<Rightarrow> Inl e | Inr v \<Rightarrow> tf_layers_conv2d (V scope) filters ksize pad act v)"
| "run V rng fd (MaxPooling2d n psize strides) =
     (case run V rng fd n of Inl e \<Rightarrow> Inl e | Inr v \<Rightarrow> tf_layers_max_pooling2d psize strides v)"
| "run V rng fd (Dense n units act scope) =
     (case run V rng fd n of Inl e \<Rightarrow> Inl e | Inr v \<Rightarrow> tf_layers_dense (V scope) units act v)"
| "run V rng fd (Dropout n rate training) =
     (case run V rng fd n of Inl e \<Rightarrow> Inl e | Inr v \<Rightarrow> tf_layers_dropout rng rate training v)"
| "run V rng fd (ArgMax n axis) =
     (case run V rng fd n of Inl e \<Rightarrow> Inl e | Inr v \<Rightarrow> tf_argmax axis v)"
| "run V rng fd (Softmax n name) =
     (case run V rng fd n of Inl e \<Rightarrow> Inl e | Inr v \<Rightarrow> tf_nn_softmax v)"
| "run V rng fd (Cast n dt) =
     (case run V rng fd n of Inl e \<Rightarrow> Inl e | Inr v \<Rightarrow> tf_cast dt v)"
| "run V rng fd (OneHot n depth) =
     (case run V rng fd n of Inl e \<Rightarrow> Inl e | Inr v \<Rightarrow> tf_one_hot depth v)"
| "run V rng fd (SoftmaxCrossEntropy onehot_labels logits) =
     (case run V rng fd onehot_labels of Inl e \<Rightarrow> Inl e
      | Inr y \<Rightarrow> (case run V rng fd logits of Inl e \<Rightarrow> Inl e
                  | Inr l \<Rightarrow> tf_losses_softmax_cross_entropy y l))"

section \<open>The model function \<^verbatim>\<open>cnn_model_fn\<close>\<close>

datatype mode = TRAIN | EVAL | PREDICT

datatype optimizer = AdamOptimizer real

datatype variable_ref = GlobalStep

text \<open>\<^verbatim>\<open>optimizer.minimize(loss, global_step)\<close>: one update of the variables, counted in the global step.\<close>

datatype operation = Minimize optimizer node variable_ref

datatype metric = Accuracy node node

datatype export_output = PredictOutput "(string \<times> node) list"

datatype summary = ScalarSummary string node | HistogramSummary string node

text \<open>\<^verbatim>\<open>tf.estimator.EstimatorSpec\<close>; an argument the script leaves out is \<open>None\<close>.\<close>

record estimator_spec =
  spec_mode :: mode
  spec_predictions :: "(string \<times> node) list option"
  spec_loss :: "node option"
  spec_train_op :: "operation option"
  spec_eval_metric_ops :: "(string \<times> metric) list option"
  spec_export_outputs :: "(string \<times> export_output) list option"

definition DEFAULT_SERVING_SIGNATURE_DEF_KEY :: string where
  "DEFAULT_SERVING_SIGNATURE_DEF_KEY = ''serving_default''"

text \<open>
  The local variables of \<^verbatim>\<open>cnn_model_fn\<close>, in the order of the source; \<open>x\<close> is
  \<^verbatim>\<open>features["x"]\<close> and \<open>md\<close> the mode. The two convolutions and the last dense layer are
  given no name, so their variables live under the scopes the framework generates:
  \<^verbatim>\<open>conv2d\<close>, \<^verbatim>\<open>conv2d_1\<close> and \<^verbatim>\<open>dense\<close>.
\<close>

definition input_layer :: "node \<Rightarrow> node" where
  "input_layer x = Reshape x [- 1, 28, 28, 1]"

definition conv1 :: "node \<Rightarrow> node" where
  "conv1 x = Conv2d (input_layer x) 32 (5, 5) SAME Relu ''conv2d''"

definition pool1 :: "node \<Rightarrow> node" where
  "pool1 x = MaxPooling2d (conv1 x) (2, 2) 2"

definition conv2 :: "node \<Rightarrow> node" where
  "conv2 x = Conv2d (pool1 x) 64 (5, 5) SAME Relu ''conv2d_1''"

definition pool2 :: "node \<Rightarrow> node" where
  "pool2 x = MaxPooling2d (conv2 x) (2, 2) 2"

definition pool2_flat :: "node \<Rightarrow> node" where
  "pool2_flat x = Reshape (pool2 x) [- 1, 7 * 7 * 64]"

definition dense :: "node \<Rightarrow> node" where
  "dense x = Dense (pool2_flat x) 1024 Relu ''dense1''"

definition dropout :: "node \<Rightarrow> mode \<Rightarrow> node" where
  "dropout x md = Dropout (dense x) (4 / 10) (md = TRAIN)"

definition logits :: "node \<Rightarrow> mode \<Rightarrow> node" where
  "logits x md = Dense (dropout x md) 10 NoActivation ''dense''"

definition predictions :: "node \<Rightarrow> mode \<Rightarrow> (string \<times> node) list" where
  "predictions x md =
     [(''classes'', ArgMax (logits x md) 1),
      (''probabilities'', Softmax (logits x md) ''softmax_tensor'')]"

definition prediction_output :: "node \<Rightarrow> mode \<Rightarrow> export_output" where
  "prediction_output x md =
     PredictOutput [(''classes'', ArgMax (logits x md) 1),
                    (''probabilities'', Softmax (logits x md) ''softmax_tensor'')]"

definition onehot_labels :: "node \<Rightarrow> node" where
  "onehot_labels labels = OneHot (Cast labels Int32) 10"

definition loss :: "node \<Rightarrow> node \<Rightarrow> mode \<Rightarrow> node" where
  "loss x labels md = SoftmaxCrossEntropy (onehot_labels labels) (logits x md)"

definition summaries :: "node \<Rightarrow> node \<Rightarrow> mode \<Rightarrow> summary list" where
  "summaries x labels md =
     [ScalarSummary ''loss'' (loss x labels md),
      HistogramSummary ''conv1'' (conv1 x),
      HistogramSummary ''dense'' (dense x)]"

definition optimizer :: optimizer where
  "optimizer = AdamOptimizer (1 / 10 ^ 4)"

definition train_op :: "node \<Rightarrow> node \<Rightarrow> mode \<Rightarrow> operation" where
  "train_op x labels md = Minimize optimizer (loss x labels md) GlobalStep"

definition eval_metric_ops :: "node \<Rightarrow> node \<Rightarrow> mode \<Rightarrow> (string \<times> metric) list" where
  "eval_metric_ops x labels md =
     [(''accuracy'', Accuracy labels (the (map_of (predictions x md) ''classes'')))]"

text \<open>
  The function returns the specification of the mode, and leaves the summaries it created
  in the graph. A features dictionary without the key \<^verbatim>\<open>x\<close> raises; so does a missing
  label tensor once the loss is built (the Estimator passes none in prediction, where the
  function returns before it reads the labels).
\<close>

definition cnn_model_fn ::
    "(string \<rightharpoonup> node) \<Rightarrow> node option \<Rightarrow> mode \<Rightarrow> error + estimator_spec \<times> summary list" where
  "cnn_model_fn features labels md =
     (case features ''x'' of
        None \<Rightarrow> Inl KeyError
      | Some x \<Rightarrow>
          if md = PREDICT then
            Inr (\<lparr>spec_mode = md, spec_predictions = Some (predictions x md),
                  spec_loss = None, spec_train_op = None, spec_eval_metric_ops = None,
                  spec_export_outputs =
                    Some [(DEFAULT_SERVING_SIGNATURE_DEF_KEY, prediction_output x md)]\<rparr>, [])
          else
            (case labels of
               None \<Rightarrow> Inl InvalidArgument
             | Some y \<Rightarrow>
                 if md = TRAIN then
                   Inr (\<lparr>spec_mode = md, spec_predictions = None,
                         spec_loss = Some (loss x y md), spec_train_op = Some (train_op x y md),
                         spec_eval_metric_ops = None, spec_export_outputs = None\<rparr>,
                        summaries x y md)
                 else
                   Inr (\<lparr>spec_mode = md, spec_predictions = None,
                         spec_loss = Some (loss x y md), spec_train_op = None,
                         spec_eval_metric_ops = Some (eval_metric_ops x y md),
                         spec_export_outputs = None\<rparr>,
                        summaries x y md)))"

section \<open>The input functions\<close>

text \<open>A split of the data set: the images, one row of pixels each, and their labels.\<close>

record dataset =
  images :: val
  labels :: val

record datasets =
  train :: dataset
  validation :: dataset
  test :: dataset

definition BATCH_SIZE :: nat where
  "BATCH_SIZE = 100"

text \<open>
  \<^verbatim>\<open>generate_input_fn\<close> returns the input function of training: the call of
  \<^verbatim>\<open>tf.train.shuffle_batch\<close> on the whole split, with the feature key \<^verbatim>\<open>x\<close>. The queue
  behind it belongs to the framework and is not interpreted here.
\<close>

record shuffle_batch =
  sb_tensors :: "val \<times> val"
  sb_batch_size :: nat
  sb_capacity :: nat
  sb_min_after_dequeue :: nat
  sb_enqueue_many :: bool
  sb_feature_key :: string

definition generate_input_fn :: "dataset \<Rightarrow> nat \<Rightarrow> shuffle_batch" where
  "generate_input_fn dataset batch_size =
     \<lparr>sb_tensors = (images dataset, labels dataset),
      sb_batch_size = batch_size,
      sb_capacity = 8 * batch_size,
      sb_min_after_dequeue = 4 * batch_size,
      sb_enqueue_many = True,
      sb_feature_key = ''x''\<rparr>"

text \<open>
  \<^verbatim>\<open>tf.estimator.inputs.numpy_input_fn\<close>, as the script calls it: one feature array under
  a key, a label array, a number of epochs and the shuffle flag; the batch size is the
  default, 128.
\<close>

record numpy_input =
  ni_x :: "string \<times> val"
  ni_y :: val
  ni_batch_size :: nat
  ni_num_epochs :: nat
  ni_shuffle :: bool

definition numpy_input_fn :: "string \<times> val \<Rightarrow> val \<Rightarrow> nat \<Rightarrow> bool \<Rightarrow> numpy_input" where
  "numpy_input_fn x y num_epochs shuffle =
     \<lparr>ni_x = x, ni_y = y, ni_batch_size = 128, ni_num_epochs = num_epochs, ni_shuffle = shuffle\<rparr>"

text \<open>Rows \<open>lo\<close> up to \<open>hi\<close> (exclusive, cut at the end) of a tensor, along its first axis.\<close>

fun slice0 :: "nat \<Rightarrow> nat \<Rightarrow> val \<Rightarrow> val" where
  "slice0 lo hi (FloatV (n # sh) xs) =
     FloatV ((min hi n - lo) # sh) (take ((min hi n - lo) * prod_list sh) (drop (lo * prod_list sh) xs))"
| "slice0 lo hi (IntV (n # sh) ks) =
     IntV ((min hi n - lo) # sh) (take ((min hi n - lo) * prod_list sh) (drop (lo * prod_list sh) ks))"
| "slice0 lo hi v = v"

fun repeat0 :: "nat \<Rightarrow> val \<Rightarrow> val" where
  "repeat0 e (FloatV (n # sh) xs) = FloatV ((e * n) # sh) (concat (replicate e xs))"
| "repeat0 e (IntV (n # sh) ks) = IntV ((e * n) # sh) (concat (replicate e ks))"
| "repeat0 e v = v"

text \<open>
  Without shuffling the input function reads the arrays in order, once per epoch, and
  cuts the stream into batches; the last batch holds what is left. Each batch feeds the
  feature under its key and the labels under \<^verbatim>\<open>y\<close>. Arrays of different length, or
  without a first axis, are rejected. The order under shuffling is the framework's.
\<close>

definition numpy_batches :: "numpy_input \<Rightarrow> error + (string \<rightharpoonup> val) list" where
  "numpy_batches inp =
     (case (shape_of (snd (ni_x inp)), shape_of (ni_y inp)) of
        (n # sh, m # sh') \<Rightarrow>
          if n = m \<and> 0 < ni_batch_size inp \<and> \<not> ni_shuffle inp
             \<and> wf_val (snd (ni_x inp)) \<and> wf_val (ni_y inp)
          then
            (let total = ni_num_epochs inp * n;
                 bs = ni_batch_size inp;
                 xs = repeat0 (ni_num_epochs inp) (snd (ni_x inp));
                 ys = repeat0 (ni_num_epochs inp) (ni_y inp)
             in Inr [[fst (ni_x inp) \<mapsto> slice0 (i * bs) (i * bs + bs) xs,
                      ''y'' \<mapsto> slice0 (i * bs) (i * bs + bs) ys].
                     i \<leftarrow> [0..<(total + bs - 1) div bs]])
          else Inl InvalidArgument
      | _ \<Rightarrow> Inl InvalidArgument)"

section \<open>The Estimator\<close>

record checkpoint =
  ckpt_variables :: variables
  ckpt_global_step :: nat

datatype hook = LoggingTensorHook "(string \<times> string) list" int

text \<open>
  \<^verbatim>\<open>tf.metrics.accuracy\<close> compares labels and predictions entry by entry; one update adds
  the number of matches to a total and the number of entries to a count.
\<close>

fun tf_metrics_accuracy :: "val \<Rightarrow> val \<Rightarrow> error + nat \<times> nat" where
  "tf_metrics_accuracy (IntV sh ks) (IntV sh' cs) =
     (if sh = sh' then Inr (length (filter (\<lambda>(k, c). k = c) (zip ks cs)), length ks)
      else Inl InvalidArgument)"
| "tf_metrics_accuracy lbl prd = Inl InvalidArgument"

fun run_metric :: "variables \<Rightarrow> (nat \<Rightarrow> real) \<Rightarrow> (string \<rightharpoonup> val) \<Rightarrow> metric \<Rightarrow> error + nat \<times> nat" where
  "run_metric V rng fd (Accuracy lbl prd) =
     (case run V rng fd lbl of Inl e \<Rightarrow> Inl e
      | Inr l \<Rightarrow> (case run V rng fd prd of Inl e \<Rightarrow> Inl e
                  | Inr p \<Rightarrow> tf_metrics_accuracy l p))"

text \<open>
  The evaluation loop: every batch adds its loss to a sum and updates the metric; a
  batch on which the graph fails ends the evaluation with the error.
\<close>

record eval_state =
  es_loss_sum :: real
  es_batches :: nat
  es_total :: nat
  es_count :: nat

fun eval_loop ::
    "variables \<Rightarrow> (nat \<Rightarrow> real) \<Rightarrow> node \<Rightarrow> metric \<Rightarrow> (string \<rightharpoonup> val) list \<Rightarrow> eval_state
       \<Rightarrow> error + eval_state" where
  "eval_loop V rng l m [] st = Inr st"
| "eval_loop V rng l m (fd # fds) st =
     (case run V rng fd l of
        Inr (FloatV [] [v]) \<Rightarrow>
          (case run_metric V rng fd m of
             Inl e \<Rightarrow> Inl e
           | Inr (correct, n) \<Rightarrow>
               eval_loop V rng l m fds
                 \<lparr>es_loss_sum = es_loss_sum st + v, es_batches = Suc (es_batches st),
                  es_total = es_total st + correct, es_count = es_count st + n\<rparr>)
      | Inr v \<Rightarrow> Inl InvalidArgument
      | Inl e \<Rightarrow> Inl e)"

record eval_results =
  accuracy :: real
  loss_mean :: real
  global_step :: nat

type_synonym model_fn =
  "(string \<rightharpoonup> node) \<Rightarrow> node option \<Rightarrow> mode \<Rightarrow> error + estimator_spec \<times> summary list"

text \<open>
  \<^verbatim>\<open>Estimator.evaluate\<close> builds the graph of the \<open>EVAL\<close> mode on the tensors of the input
  function, restores the checkpoint and runs the loop over the batches until the input
  is exhausted. It reports the accuracy (the total over the count), the mean of the
  batch losses and the global step. The model function of this script registers exactly
  one metric, under the name \<^verbatim>\<open>accuracy\<close>.
\<close>

definition estimator_evaluate ::
    "model_fn \<Rightarrow> checkpoint \<Rightarrow> (nat \<Rightarrow> real) \<Rightarrow> numpy_input \<Rightarrow> error + eval_results" where
  "estimator_evaluate model_fn ckpt rng input_fn =
     (case numpy_batches input_fn of
        Inl e \<Rightarrow> Inl e
      | Inr fds \<Rightarrow>
          (case model_fn [fst (ni_x input_fn) \<mapsto> Input (fst (ni_x input_fn))] (Some (Input ''y'')) EVAL of
             Inl e \<Rightarrow> Inl e
           | Inr (spec, smr) \<Rightarrow>
               (case (spec_loss spec, spec_eval_metric_ops spec) of
                  (Some l, Some [(name, m)]) \<Rightarrow>
                    (case eval_loop (ckpt_variables ckpt) rng l m fds
                            \<lparr>es_loss_sum = 0, es_batches = 0, es_total = 0, es_count = 0\<rparr> of
                       Inl e \<Rightarrow> Inl e
                     | Inr st \<Rightarrow>
                         Inr \<lparr>accuracy = (if es_count st = 0 then 0
                                           else real (es_total st) / real (es_count st)),
                              loss_mean = (if es_batches st = 0 then 0
                                            else es_loss_sum st / real (es_batches st)),
                              global_step = ckpt_global_step ckpt\<rparr>)
                | _ \<Rightarrow> Inl InvalidArgument)))"

text \<open>Example \<open>i\<close> of a batch: the tensor without its first axis.\<close>

fun example :: "nat \<Rightarrow> val \<Rightarrow> val" where
  "example i (FloatV (n # sh) xs) = FloatV sh (row (prod_list sh) xs i)"
| "example i (IntV (n # sh) ks) = IntV sh (row (prod_list sh) ks i)"
| "example i v = v"

fun batch_size_of :: "val \<Rightarrow> nat" where
  "batch_size_of v = (case shape_of v of [] \<Rightarrow> 0 | n # sh \<Rightarrow> n)"

text \<open>The tensors of a dictionary, evaluated in one run, in the order of the dictionary.\<close>

fun run_dict ::
    "variables \<Rightarrow> (nat \<Rightarrow> real) \<Rightarrow> (string \<rightharpoonup> val) \<Rightarrow> (string \<times> node) list
       \<Rightarrow> error + (string \<times> val) list" where
  "run_dict V rng fd [] = Inr []"
| "run_dict V rng fd ((k, n) # ns) =
     (case run V rng fd n of
        Inl e \<Rightarrow> Inl e
      | Inr v \<Rightarrow> (case run_dict V rng fd ns of
                    Inl e \<Rightarrow> Inl e
                  | Inr vs \<Rightarrow> Inr ((k, v) # vs)))"

text \<open>
  \<^verbatim>\<open>Estimator.predict\<close> builds the graph of the \<open>PREDICT\<close> mode on the features alone
  (the model function receives no labels) and yields, batch after batch, one dictionary
  per example.
\<close>

fun predict_loop ::
    "variables \<Rightarrow> (nat \<Rightarrow> real) \<Rightarrow> (string \<times> node) list \<Rightarrow> (string \<rightharpoonup> val) list
       \<Rightarrow> error + (string \<times> val) list list" where
  "predict_loop V rng preds [] = Inr []"
| "predict_loop V rng preds (fd # fds) =
     (case run_dict V rng fd preds of
        Inl e \<Rightarrow> Inl e
      | Inr vs \<Rightarrow>
          (case predict_loop V rng preds fds of
             Inl e \<Rightarrow> Inl e
           | Inr rest \<Rightarrow>
               Inr ([map (\<lambda>(k, v). (k, example i v)) vs.
                     i \<leftarrow> [0..<(case vs of [] \<Rightarrow> 0 | (k, v) # ws \<Rightarrow> batch_size_of v)]] @ rest)))"

definition estimator_predict ::
    "model_fn \<Rightarrow> checkpoint \<Rightarrow> (nat \<Rightarrow> real) \<Rightarrow> numpy_input \<Rightarrow> error + (string \<times> val) list list" where
  "estimator_predict model_fn ckpt rng input_fn =
     (case numpy_batches input_fn of
        Inl e \<Rightarrow> Inl e
      | Inr fds \<Rightarrow>
          (case model_fn [fst (ni_x input_fn) \<mapsto> Input (fst (ni_x input_fn))] None PREDICT of
             Inl e \<Rightarrow> Inl e
           | Inr (spec, smr) \<Rightarrow>
               (case spec_predictions spec of
                  None \<Rightarrow> Inl InvalidArgument
                | Some preds \<Rightarrow> predict_loop (ckpt_variables ckpt) rng preds fds)))"

text \<open>
  The serving input receiver: the tensors a request feeds and the features the model
  function reads. \<^verbatim>\<open>export_savedmodel\<close> builds the graph of the \<open>PREDICT\<close> mode on these
  features and stores it with the variables of the checkpoint.
\<close>

record serving_input_receiver =
  sir_features :: "string \<rightharpoonup> node"
  sir_receiver_tensors :: "string \<rightharpoonup> node"

record saved_model =
  sm_receiver_tensors :: "string \<rightharpoonup> node"
  sm_export_outputs :: "(string \<times> export_output) list"
  sm_variables :: variables

definition build_saved_model :: "model_fn \<Rightarrow> checkpoint \<Rightarrow> serving_input_receiver \<Rightarrow> error + saved_model" where
  "build_saved_model model_fn ckpt receiver =
     (case model_fn (sir_features receiver) None PREDICT of
        Inl e \<Rightarrow> Inl e
      | Inr (spec, smr) \<Rightarrow>
          (case spec_export_outputs spec of
             None \<Rightarrow> Inl InvalidArgument
           | Some outs \<Rightarrow>
               Inr \<lparr>sm_receiver_tensors = sir_receiver_tensors receiver,
                    sm_export_outputs = outs,
                    sm_variables = ckpt_variables ckpt\<rparr>))"

section \<open>The script \<^verbatim>\<open>main\<close>\<close>

record flags =
  data_dir :: string
  model_dir :: string
  num_steps :: int
  logging_hook_iter :: int

text \<open>
  What the script leaves to its environment: the data set under a directory, the random
  draw of \<^verbatim>\<open>next_batch\<close>, the training loop of the Estimator (the queue of
  \<^verbatim>\<open>shuffle_batch\<close>, the optimizer and the hooks run inside it), the random samples of a
  run, and the disk the model is exported to. Reading the data, training and writing the
  export may raise.
\<close>

record framework =
  read_data_sets :: "string \<Rightarrow> error + datasets"
  next_batch :: "dataset \<Rightarrow> nat \<Rightarrow> val \<times> val"
  estimator_train :: "model_fn \<Rightarrow> string \<Rightarrow> shuffle_batch \<Rightarrow> int \<Rightarrow> hook list \<Rightarrow> error + checkpoint"
  session_rng :: "nat \<Rightarrow> real"
  write_saved_model :: "string \<Rightarrow> saved_model \<Rightarrow> error + string"

datatype stage = Load | Training | Evaluation | Prediction | Export

datatype event = Begin stage | Returned stage

datatype printed = PrintEval eval_results | PrintPrediction "(string \<times> val) list"

record outcome =
  trace :: "event list"
  stdout :: "printed list"
  raised :: "error option"

text \<open>
  A stage of the script: it begins, and either raises, which ends the program (nothing
  in the script catches an exception), or returns a value and what it printed, and the
  script goes on.
\<close>

definition stage ::
    "stage \<Rightarrow> event list \<Rightarrow> printed list \<Rightarrow> error + 'a \<times> printed list
       \<Rightarrow> (event list \<Rightarrow> printed list \<Rightarrow> 'a \<Rightarrow> outcome) \<Rightarrow> outcome" where
  "stage s tr out r k =
     (case r of
        Inl e \<Rightarrow> \<lparr>trace = tr @ [Begin s], stdout = out, raised = Some e\<rparr>
      | Inr (a, printed) \<Rightarrow> k (tr @ [Begin s, Returned s]) (out @ printed) a)"

definition feature_tensor :: node where
  "feature_tensor = Placeholder ''Placeholder'' Float32 [None, Some 784]"

definition serving_input_receiver_fn :: serving_input_receiver where
  "serving_input_receiver_fn =
     \<lparr>sir_features = [''x'' \<mapsto> feature_tensor], sir_receiver_tensors = [''x'' \<mapsto> feature_tensor]\<rparr>"

definition tensors_to_log :: "(string \<times> string) list" where
  "tensors_to_log = [(''probabilities'', ''softmax_tensor'')]"

text \<open>
  The script, statement by statement. The load reads the data set and draws the batch of
  20 test examples for the prediction; the arrays of the training split that the script
  also binds are not used again, and the labels it converts to \<^verbatim>\<open>int32\<close> are integers
  already. \<open>mnist_classifier\<close> stands for the Estimator with the checkpoint the training
  left in the model directory. The evaluation prints its results; the prediction prints
  one dictionary per example; the export writes the serving bundle.
\<close>

definition main :: "framework \<Rightarrow> flags \<Rightarrow> outcome" where
  "main fw FLAGS =
     stage Load [] []
       (case read_data_sets fw (data_dir FLAGS) of
          Inl e \<Rightarrow> Inl e
        | Inr mnist \<Rightarrow> Inr ((mnist, next_batch fw (test mnist) 20), []))
       (\<lambda>tr out (mnist, predict_data_batch).
     stage Training tr out
       (case estimator_train fw cnn_model_fn (model_dir FLAGS)
               (generate_input_fn (train mnist) BATCH_SIZE) (num_steps FLAGS)
               [LoggingTensorHook tensors_to_log (logging_hook_iter FLAGS)] of
          Inl e \<Rightarrow> Inl e
        | Inr ckpt \<Rightarrow> Inr (ckpt, []))
       (\<lambda>tr out mnist_classifier.
     stage Evaluation tr out
       (case estimator_evaluate cnn_model_fn mnist_classifier (session_rng fw)
               (numpy_input_fn (''x'', images (test mnist)) (labels (test mnist)) 1 False) of
          Inl e \<Rightarrow> Inl e
        | Inr eval_results \<Rightarrow> Inr ((), [PrintEval eval_results]))
       (\<lambda>tr out u.
     stage Prediction tr out
       (case estimator_predict cnn_model_fn mnist_classifier (session_rng fw)
               (numpy_input_fn (''x'', fst predict_data_batch) (snd predict_data_batch) 1 False) of
          Inl e \<Rightarrow> Inl e
        | Inr predict_results \<Rightarrow> Inr ((), map PrintPrediction predict_results))
       (\<lambda>tr out u.
     stage Export tr out
       (case build_saved_model cnn_model_fn mnist_classifier serving_input_receiver_fn of
          Inl e \<Rightarrow> Inl e
        | Inr bundle \<Rightarrow>
            (case write_saved_model fw (model_dir FLAGS) bundle of
               Inl e \<Rightarrow> Inl e
             | Inr path \<Rightarrow> Inr ((), [])))
       (\<lambda>tr out u. \<lparr>trace = tr, stdout = out, raised = None\<rparr>)))))"

section \<open>Sample inputs\<close>

text \<open>
  A checkpoint with every variable 0, random samples that are all 0, a batch of one blank
  image with the label 3, the same image with the label 12, and a batch of two vectors of
  392 pixels.
\<close>

definition zero_vars :: variables where
  "zero_vars = (\<lambda>scope. \<lparr>kernel = (\<lambda>idx. 0), bias = (\<lambda>u. 0)\<rparr>)"

text \<open>A checkpoint whose kernels are 0 and whose bias of unit \<open>u\<close> is \<open>u\<close>: the logits are 0 to 9.\<close>

definition ramp_vars :: variables where
  "ramp_vars = (\<lambda>scope. \<lparr>kernel = (\<lambda>idx. 0), bias = (\<lambda>u. real u)\<rparr>)"

definition zero_rng :: "nat \<Rightarrow> real" where
  "zero_rng = (\<lambda>i. 0)"

definition blank_feed :: "string \<rightharpoonup> val" where
  "blank_feed = [''x'' \<mapsto> FloatV [1, 784] (replicate 784 0), ''y'' \<mapsto> IntV [1] [3]]"

definition stray_feed :: "string \<rightharpoonup> val" where
  "stray_feed = [''x'' \<mapsto> FloatV [1, 784] (replicate 784 0), ''y'' \<mapsto> IntV [1] [12]]"

definition folded_feed :: "string \<rightharpoonup> val" where
  "folded_feed = [''x'' \<mapsto> FloatV [2, 392] (replicate 784 0)]"

text \<open>
  The flags at their defaults (the model directory ends in the time of the start), an
  environment in which no call succeeds, and one that holds a data set of one blank image
  per split and whose training returns the checkpoint of zeros.
\<close>

definition sample_flags :: flags where
  "sample_flags =
     \<lparr>data_dir = ''/tmp/MNIST_data'', model_dir = ''/tmp/tfmodels/mnist_cnn_estimator/0'',
      num_steps = 20000, logging_hook_iter = 5000\<rparr>"


definition blank_split :: dataset where
  "blank_split = \<lparr>images = FloatV [1, 784] (replicate 784 0), labels = IntV [1] [3]\<rparr>"

definition tiny :: framework where
  "tiny =
     \<lparr>read_data_sets =
        (\<lambda>d. Inr \<lparr>train = blank_split, validation = blank_split, test = blank_split\<rparr>),
      next_batch = (\<lambda>ds n. (images ds, labels ds)),
      estimator_train =
        (\<lambda>f d i s h. Inr \<lparr>ckpt_variables = zero_vars, ckpt_global_step = nat s\<rparr>),
      session_rng = zero_rng,
      write_saved_model = (\<lambda>d m. Inr d)\<rparr>"

section \<open>Shapes through the layers\<close>

lemma reshape_input: "tf_reshape [- 1, 28, 28, 1] (FloatV [b, 784] xs) = Inr (FloatV [b, 28, 28, 1] xs)"
  by (simp add: tf_reshape_def)

lemma reshape_flat: "tf_reshape [- 1, 7 * 7 * 64] (FloatV [b, 7, 7, 64] xs) = Inr (FloatV [b, 3136] xs)"
  by (simp add: tf_reshape_def)

lemma conv_same: "\<exists>ys. tf_layers_conv2d lv f (5, 5) SAME act (FloatV [b, h, w, c] xs) = Inr (FloatV [b, h, w, f] ys)"
  by simp

lemma pool_28: "\<exists>ys. tf_layers_max_pooling2d (2, 2) 2 (FloatV [b, 28, 28, c] xs) = Inr (FloatV [b, 14, 14, c] ys)"
  by simp

lemma pool_14: "\<exists>ys. tf_layers_max_pooling2d (2, 2) 2 (FloatV [b, 14, 14, c] xs) = Inr (FloatV [b, 7, 7, c] ys)"
  by simp

lemma length_concat_const: "(\<And>x. x \<in> set xs \<Longrightarrow> length (f x) = k) \<Longrightarrow> length (concat (map f xs)) = length xs * k"
  by (induction xs) auto

lemma dense_shape: "\<exists>ys. tf_layers_dense lv u act (FloatV [b, d] xs) = Inr (FloatV [b, u] ys) \<and> length ys = b * u"
  by (simp add: length_concat_const)

lemma row_concat:
  assumes "\<And>j. j < b \<Longrightarrow> length (f j) = n" and "i < b"
  shows "row n (concat (map f [0..<b])) i = f i"
  using assms
proof (induction b)
  case 0 then show ?case by simp
next
  case (Suc b)
  have len: "length (concat (map f [0..<b])) = b * n"
    by (subst length_concat_const[where k=n]) (use Suc.prems(1) in auto)
  show ?case
  proof (cases "i < b")
    case True
    then have "row n (concat (map f [0..<b])) i = f i" using Suc by simp
    moreover have "i * n + n \<le> b * n" using True
      by (metis Suc_leI add.commute mult_Suc mult_le_mono1)
    ultimately show ?thesis using len by (simp add: row_def)
  next
    case False
    then have "i = b" using Suc.prems(2) by simp
    then show ?thesis using len Suc.prems(1)[of b] by (simp add: row_def)
  qed
qed

section \<open>The layers of the model function, run in order\<close>

lemma run_input_layer:
  "run V rng fd x = Inr (FloatV [b, 784] xs) \<Longrightarrow>
   run V rng fd (input_layer x) = Inr (FloatV [b, 28, 28, 1] xs)"
  by (simp add: input_layer_def reshape_input)

lemma run_conv1:
  assumes "run V rng fd x = Inr (FloatV [b, 784] xs)"
  shows "\<exists>ys. run V rng fd (conv1 x) = Inr (FloatV [b, 28, 28, 32] ys)"
  using run_input_layer[OF assms] conv_same[of "V ''conv2d''" 32 Relu b 28 28 1 xs]
  by (simp add: conv1_def del: tf_layers_conv2d.simps)

lemma run_pool1:
  assumes "run V rng fd x = Inr (FloatV [b, 784] xs)"
  shows "\<exists>ys. run V rng fd (pool1 x) = Inr (FloatV [b, 14, 14, 32] ys)"
proof -
  obtain ys where "run V rng fd (conv1 x) = Inr (FloatV [b, 28, 28, 32] ys)"
    using run_conv1[OF assms] by blast
  then show ?thesis using pool_28[of b 32 ys]
    by (simp add: pool1_def del: tf_layers_max_pooling2d.simps)
qed

lemma run_conv2:
  assumes "run V rng fd x = Inr (FloatV [b, 784] xs)"
  shows "\<exists>ys. run V rng fd (conv2 x) = Inr (FloatV [b, 14, 14, 64] ys)"
proof -
  obtain ys where "run V rng fd (pool1 x) = Inr (FloatV [b, 14, 14, 32] ys)"
    using run_pool1[OF assms] by blast
  then show ?thesis using conv_same[of "V ''conv2d_1''" 64 Relu b 14 14 32 ys]
    by (simp add: conv2_def del: tf_layers_conv2d.simps)
qed

lemma run_pool2:
  assumes "run V rng fd x = Inr (FloatV [b, 784] xs)"
  shows "\<exists>ys. run V rng fd (pool2 x) = Inr (FloatV [b, 7, 7, 64] ys)"
proof -
  obtain ys where "run V rng fd (conv2 x) = Inr (FloatV [b, 14, 14, 64] ys)"
    using run_conv2[OF assms] by blast
  then show ?thesis using pool_14[of b 64 ys]
    by (simp add: pool2_def del: tf_layers_max_pooling2d.simps)
qed

lemma run_pool2_flat:
  assumes "run V rng fd x = Inr (FloatV [b, 784] xs)"
  shows "\<exists>ys. run V rng fd (pool2_flat x) = Inr (FloatV [b, 7 * 7 * 64] ys)"
proof -
  obtain ys where "run V rng fd (pool2 x) = Inr (FloatV [b, 7, 7, 64] ys)"
    using run_pool2[OF assms] by blast
  then show ?thesis using reshape_flat[of b ys]
    by (simp add: pool2_flat_def)
qed

lemma run_dense:
  assumes "run V rng fd x = Inr (FloatV [b, 784] xs)"
  shows "\<exists>ys. run V rng fd (dense x) = Inr (FloatV [b, 1024] ys) \<and> length ys = b * 1024"
proof -
  obtain ys where "run V rng fd (pool2_flat x) = Inr (FloatV [b, 7 * 7 * 64] ys)"
    using run_pool2_flat[OF assms] by blast
  then show ?thesis using dense_shape[of "V ''dense1''" 1024 Relu b "7 * 7 * 64" ys]
    by (simp add: dense_def del: tf_layers_dense.simps)
qed

lemma run_dropout:
  assumes "run V rng fd x = Inr (FloatV [b, 784] xs)"
  shows "\<exists>ys. run V rng fd (dropout x md) = Inr (FloatV [b, 1024] ys)"
proof -
  obtain ys where "run V rng fd (dense x) = Inr (FloatV [b, 1024] ys)"
    using run_dense[OF assms] by blast
  then show ?thesis by (simp add: dropout_def)
qed

lemma run_logits:
  assumes "run V rng fd x = Inr (FloatV [b, 784] xs)"
  shows "\<exists>ls. run V rng fd (logits x md) = Inr (FloatV [b, 10] ls) \<and> length ls = b * 10"
proof -
  obtain ys where "run V rng fd (dropout x md) = Inr (FloatV [b, 1024] ys)"
    using run_dropout[OF assms] by blast
  then show ?thesis using dense_shape[of "V ''dense''" 10 NoActivation b 1024 ys]
    by (simp add: logits_def del: tf_layers_dense.simps)
qed

lemma length_row: "i * n + n \<le> length xs \<Longrightarrow> length (row n xs i) = n"
  by (simp add: row_def)

lemma row_bound: "i < b \<Longrightarrow> length xs = b * n \<Longrightarrow> i * n + n \<le> length (xs::'a list)"
  by (metis Suc_leI add.commute mult_Suc mult_le_mono1)

lemma run_Input:
  "fd k = Some v \<Longrightarrow> wf_val v \<Longrightarrow> run V rng fd (Input k) = Inr v"
  by simp

section \<open>Predictions\<close>

lemma run_classes:
  assumes "run V rng fd n = Inr (FloatV [b, 10] ls)"
  shows "run V rng fd (ArgMax n 1) = Inr (IntV [b] [int (argmax_row (row 10 ls i)). i \<leftarrow> [0..<b]])"
  using assms by simp

lemma run_probabilities:
  assumes "run V rng fd n = Inr (FloatV [b, 10] ls)"
  shows "run V rng fd (Softmax n name) = Inr (FloatV [b, 10] (concat [softmax_row (row 10 ls i). i \<leftarrow> [0..<b]]))"
  using assms by simp

lemma length_softmax_row: "length (softmax_row xs) = length xs"
  by (simp add: softmax_row_def)

lemma length_row_batch: "i < b \<Longrightarrow> length xs = b * n \<Longrightarrow> length (row n xs i) = n"
  using row_bound[of i b xs n] by (simp add: length_row)

lemma predictions_run:
  assumes x: "run V rng fd x = Inr (FloatV [b, 784] xs)"
  shows "\<exists>cs ps.
     run V rng fd (ArgMax (logits x md) 1) = Inr (IntV [b] cs) \<and>
     run V rng fd (Softmax (logits x md) ''softmax_tensor'') = Inr (FloatV [b, 10] ps) \<and>
     length cs = b \<and> length ps = b * 10"
proof -
  obtain ls where ls: "run V rng fd (logits x md) = Inr (FloatV [b, 10] ls)"
    and len: "length ls = b * 10"
    using run_logits[OF x] by blast
  define cs where "cs = [int (argmax_row (row 10 ls i)). i \<leftarrow> [0..<b]]"
  define ps where "ps = concat [softmax_row (row 10 ls i). i \<leftarrow> [0..<b]]"
  have c: "run V rng fd (ArgMax (logits x md) 1) = Inr (IntV [b] cs)"
    unfolding cs_def using ls by (rule run_classes)
  have p: "run V rng fd (Softmax (logits x md) ''softmax_tensor'') = Inr (FloatV [b, 10] ps)"
    unfolding ps_def using ls by (rule run_probabilities)
  have lcs: "length cs = b" by (simp add: cs_def)
  have lps: "length ps = b * 10"
    unfolding ps_def
    by (subst length_concat_const[where k=10])
       (use len in \<open>auto simp: length_softmax_row length_row_batch\<close>)
  show ?thesis using c p lcs lps by blast
qed

section \<open>The loss and the metric\<close>

lemma row_concat_map:
  assumes "\<And>k. k \<in> set ks \<Longrightarrow> length (f k) = n" and "i < length ks"
  shows "row n (concat (map f ks)) i = f (ks ! i)"
proof -
  have "map f ks = map (\<lambda>j. f (ks ! j)) [0..<length ks]"
    by (rule nth_equalityI) auto
  then have "row n (concat (map f ks)) i = row n (concat (map (\<lambda>j. f (ks ! j)) [0..<length ks])) i"
    by simp
  also have "\<dots> = f (ks ! i)"
    by (rule row_concat) (use assms in auto)
  finally show ?thesis .
qed

lemma length_one_hot_row: "length (one_hot_row d k) = d"
  by (simp add: one_hot_row_def)

lemma run_onehot_labels:
  assumes "run V rng fd y = Inr (IntV [b] ks)"
  shows "run V rng fd (onehot_labels y) = Inr (FloatV [b, 10] (concat (map (one_hot_row 10) ks)))"
  using assms by (simp add: onehot_labels_def)

lemma run_loss:
  assumes x: "run V rng fd x = Inr (FloatV [b, 784] xs)"
      and y: "run V rng fd y = Inr (IntV [b] ks)" and len: "length ks = b"
      and ls: "run V rng fd (logits x md) = Inr (FloatV [b, 10] ls)"
  shows "run V rng fd (loss x y md) =
           Inr (FloatV [] [if b = 0 then 0
                           else sum_list [cross_entropy_row (one_hot_row 10 (ks ! i)) (row 10 ls i).
                                          i \<leftarrow> [0..<b]] / real b])"
proof -
  have rows: "map (\<lambda>i. cross_entropy_row (row 10 (concat (map (one_hot_row 10) ks)) i) (row 10 ls i)) [0..<b]
      = map (\<lambda>i. cross_entropy_row (one_hot_row 10 (ks ! i)) (row 10 ls i)) [0..<b]"
    by (rule map_cong) (simp_all add: row_concat_map length_one_hot_row len)
  have "run V rng fd (loss x y md) =
           Inr (FloatV [] [if b = 0 then 0
              else sum_list (map (\<lambda>i. cross_entropy_row (row 10 (concat (map (one_hot_row 10) ks)) i)
                                  (row 10 ls i)) [0..<b]) / real b])"
    using run_onehot_labels[OF y] ls by (simp add: loss_def)
  then show ?thesis by (simp only: rows)
qed

lemma one_hot_row_weighted_sum:
  assumes "length ps = n"
  shows "sum_list (map2 (\<lambda>y p. y * f p) (one_hot_row n k) ps) =
           (if 0 \<le> k \<and> k < int n then f (ps ! nat k) else (0::real))"
proof -
  have len: "length (map2 (\<lambda>y p. y * f p) (one_hot_row n k) ps) = n"
    using assms by (simp add: one_hot_row_def)
  have nth: "map2 (\<lambda>y p. y * f p) (one_hot_row n k) ps ! i = (if k = int i then f (ps ! i) else 0)"
    if "i < n" for i
    using that assms by (simp add: one_hot_row_def)
  have "sum_list (map2 (\<lambda>y p. y * f p) (one_hot_row n k) ps)
      = (\<Sum>i = 0..<n. map2 (\<lambda>y p. y * f p) (one_hot_row n k) ps ! i)"
    using sum_list_sum_nth[of "map2 (\<lambda>y p. y * f p) (one_hot_row n k) ps"] len by simp
  also have "\<dots> = (\<Sum>i = 0..<n. if k = int i then f (ps ! i) else 0)"
    by (rule sum.cong) (simp_all add: nth)
  also have "\<dots> = (if 0 \<le> k \<and> k < int n then f (ps ! nat k) else 0)"
  proof (cases "0 \<le> k")
    case True
    then have "(k = int i) = (nat k = i)" for i by auto
    then have "(\<Sum>i = 0..<n. if k = int i then f (ps ! i) else 0)
        = (\<Sum>i = 0..<n. if nat k = i then f (ps ! i) else 0)"
      by simp
    also have "\<dots> = (if nat k \<in> {0..<n} then f (ps ! nat k) else 0)"
      by (rule sum.delta') simp
    finally show ?thesis using True by auto
  next
    case False
    then have "(\<Sum>i = 0..<n. if k = int i then f (ps ! i) else 0) = (0::real)"
      by (intro sum.neutral) auto
    then show ?thesis using False by simp
  qed
  finally show ?thesis .
qed

lemma cross_entropy_one_hot:
  assumes "length r = n"
  shows "cross_entropy_row (one_hot_row n k) r =
           (if 0 \<le> k \<and> k < int n
            then - ln (exp (r ! nat k) / (\<Sum>j = 0..<n. exp (r ! j))) else 0)"
proof -
  have s: "sum_list (map exp r) = (\<Sum>j = 0..<n. exp (r ! j))"
    using sum_list_sum_nth[of "map exp r"] assms by simp
  have l: "length (softmax_row r) = n" using assms by (simp add: softmax_row_def)
  have "softmax_row r ! nat k = exp (r ! nat k) / (\<Sum>j = 0..<n. exp (r ! j))"
    if kk: "0 \<le> k \<and> k < int n"
  proof -
    have "nat k < length r" using kk assms by auto
    then show ?thesis using s by (simp add: softmax_row_def)
  qed
  then show ?thesis
    unfolding cross_entropy_row_def one_hot_row_weighted_sum[OF l, of ln k] by simp
qed

lemma nth_row: "i * n + n \<le> length xs \<Longrightarrow> j < n \<Longrightarrow> row n xs i ! j = xs ! (i * n + j)"
  by (simp add: row_def)

lemma cross_entropy_example:
  assumes "length ls = b * 10" and "i < b"
  shows "cross_entropy_row (one_hot_row 10 k) (row 10 ls i) =
           (if 0 \<le> k \<and> k < 10
            then - ln (exp (ls ! (i * 10 + nat k)) / (\<Sum>j = 0..<10. exp (ls ! (i * 10 + j))))
            else 0)"
proof -
  have bd: "i * 10 + 10 \<le> length ls" using assms by simp
  have l: "length (row 10 ls i) = 10" using bd by (simp add: row_def)
  have n: "row 10 ls i ! j = ls ! (i * 10 + j)" if "j < 10" for j
    using bd that by (rule nth_row)
  have s: "(\<Sum>j = 0..<10. exp (row 10 ls i ! j)) = (\<Sum>j = 0..<10. exp (ls ! (i * 10 + j)))"
    by (rule sum.cong) (simp_all add: n)
  have k: "row 10 ls i ! nat k = ls ! (i * 10 + nat k)" if "0 \<le> k \<and> k < 10"
    using that by (intro n) auto
  show ?thesis
    unfolding cross_entropy_one_hot[OF l] s using k by simp
qed

lemma run_loss_explicit:
  assumes x: "run V rng fd x = Inr (FloatV [b, 784] xs)"
      and y: "run V rng fd y = Inr (IntV [b] ks)" and len: "length ks = b"
      and ls: "run V rng fd (logits x md) = Inr (FloatV [b, 10] ls)" and ll: "length ls = b * 10"
  shows "run V rng fd (loss x y md) =
           Inr (FloatV [] [if b = 0 then 0
              else (\<Sum>i = 0..<b. if 0 \<le> ks ! i \<and> ks ! i < 10
                      then - ln (exp (ls ! (i * 10 + nat (ks ! i)))
                                 / (\<Sum>j = 0..<10. exp (ls ! (i * 10 + j))))
                      else 0) / real b])"
proof -
  have "sum_list [cross_entropy_row (one_hot_row 10 (ks ! i)) (row 10 ls i). i \<leftarrow> [0..<b]]
      = (\<Sum>i = 0..<b. cross_entropy_row (one_hot_row 10 (ks ! i)) (row 10 ls i))"
    by (simp add: interv_sum_list_conv_sum_set_nat)
  also have "\<dots> = (\<Sum>i = 0..<b. if 0 \<le> ks ! i \<and> ks ! i < 10
                      then - ln (exp (ls ! (i * 10 + nat (ks ! i)))
                                 / (\<Sum>j = 0..<10. exp (ls ! (i * 10 + j))))
                      else 0)"
    by (rule sum.cong) (simp_all add: cross_entropy_example[OF ll])
  finally show ?thesis using run_loss[OF x y len ls] by simp
qed

lemma run_accuracy:
  assumes y: "run V rng fd y = Inr (IntV [b] ks)"
      and c: "run V rng fd c = Inr (IntV [b] cs)"
  shows "run_metric V rng fd (Accuracy y c) =
           Inr (length (filter (\<lambda>(k, c). k = c) (zip ks cs)), length ks)"
  using assms by simp

section \<open>The sample inputs evaluate\<close>

lemma blank_feed_x:
  "run V rng blank_feed (Input ''x'') = Inr (FloatV [1, 784] (replicate 784 0))"
  by (simp add: blank_feed_def)

lemma blank_feed_y:
  "run V rng blank_feed (Input ''y'') = Inr (IntV [1] [3])"
  by (simp add: blank_feed_def)

section \<open>The architecture and the outputs of each mode\<close>

lemma logits_graph:
  "logits x md =
     Dense (Dropout (Dense (Reshape (MaxPooling2d (Conv2d (MaxPooling2d (Conv2d
       (Reshape x [- 1, 28, 28, 1]) 32 (5, 5) SAME Relu ''conv2d'') (2, 2) 2)
       64 (5, 5) SAME Relu ''conv2d_1'') (2, 2) 2) [- 1, 7 * 7 * 64])
       1024 Relu ''dense1'') (4 / 10) (md = TRAIN)) 10 NoActivation ''dense''"
  by (simp add: logits_def dropout_def dense_def pool2_flat_def pool2_def conv2_def pool1_def
      conv1_def input_layer_def)

lemma dropout_not_training: "tf_layers_dropout rng rate False v = Inr v"
  by (cases v) simp_all

lemma run_dropout_inactive: "run V rng fd (Dropout n rate False) = run V rng fd n"
  by (cases "run V rng fd n") (simp_all add: dropout_not_training)

lemma run_dropout_eval: "md \<noteq> TRAIN \<Longrightarrow> run V rng fd (dropout x md) = run V rng fd (dense x)"
  by (simp add: dropout_def run_dropout_inactive del: run.simps)

lemma run_dropout_train:
  "run V rng fd (dense x) = Inr (FloatV sh ys) \<Longrightarrow>
   run V rng fd (dropout x TRAIN) =
     Inr (FloatV sh [ys ! i / (1 - 4 / 10) * of_int \<lfloor>(1 - 4 / 10) + rng i\<rfloor>. i \<leftarrow> [0..<length ys]])"
  by (simp add: dropout_def)

text \<open>
  Claim C2. The logits are the fixed chain of layers, with the hyperparameters of the
  claim and none that depends on an argument other than the mode flag of the dropout;
  the predictions are the argmax and the softmax of the logits. On a batch of \<open>b\<close> vectors
  of 784 pixels the layers produce the shapes \<open>[b, 28, 28, 1]\<close>, \<open>[b, 28, 28, 32]\<close>,
  \<open>[b, 14, 14, 32]\<close>, \<open>[b, 14, 14, 64]\<close>, \<open>[b, 7, 7, 64]\<close>, \<open>[b, 7 * 7 * 64]\<close>, \<open>[b, 1024]\<close>
  and \<open>[b, 10]\<close>. Outside the \<open>TRAIN\<close> mode the dropout returns the dense layer's output;
  in the \<open>TRAIN\<close> mode it masks and rescales it by the rate 0.4.
\<close>

theorem cnn_model_fn_architecture:
  assumes x: "run V rng fd x = Inr (FloatV [b, 784] xs)"
  shows "logits x md =
     Dense (Dropout (Dense (Reshape (MaxPooling2d (Conv2d (MaxPooling2d (Conv2d
       (Reshape x [- 1, 28, 28, 1]) 32 (5, 5) SAME Relu ''conv2d'') (2, 2) 2)
       64 (5, 5) SAME Relu ''conv2d_1'') (2, 2) 2) [- 1, 7 * 7 * 64])
       1024 Relu ''dense1'') (4 / 10) (md = TRAIN)) 10 NoActivation ''dense'' \<and>
   predictions x md =
     [(''classes'', ArgMax (logits x md) 1),
      (''probabilities'', Softmax (logits x md) ''softmax_tensor'')] \<and>
   run V rng fd (input_layer x) = Inr (FloatV [b, 28, 28, 1] xs) \<and>
   (\<exists>ys. run V rng fd (conv1 x) = Inr (FloatV [b, 28, 28, 32] ys)) \<and>
   (\<exists>ys. run V rng fd (pool1 x) = Inr (FloatV [b, 14, 14, 32] ys)) \<and>
   (\<exists>ys. run V rng fd (conv2 x) = Inr (FloatV [b, 14, 14, 64] ys)) \<and>
   (\<exists>ys. run V rng fd (pool2 x) = Inr (FloatV [b, 7, 7, 64] ys)) \<and>
   (\<exists>ys. run V rng fd (pool2_flat x) = Inr (FloatV [b, 7 * 7 * 64] ys)) \<and>
   (\<exists>ys. run V rng fd (dense x) = Inr (FloatV [b, 1024] ys) \<and> length ys = b * 1024 \<and>
      run V rng fd (dropout x TRAIN) =
        Inr (FloatV [b, 1024]
          [ys ! i / (1 - 4 / 10) * of_int \<lfloor>(1 - 4 / 10) + rng i\<rfloor>. i \<leftarrow> [0..<length ys]])) \<and>
   (md \<noteq> TRAIN \<longrightarrow> run V rng fd (dropout x md) = run V rng fd (dense x)) \<and>
   (\<exists>ls. run V rng fd (logits x md) = Inr (FloatV [b, 10] ls) \<and> length ls = b * 10)"
proof -
  obtain ys where d: "run V rng fd (dense x) = Inr (FloatV [b, 1024] ys)" "length ys = b * 1024"
    using run_dense[OF x] by blast
  have dr: "\<exists>ys. run V rng fd (dense x) = Inr (FloatV [b, 1024] ys) \<and> length ys = b * 1024 \<and>
      run V rng fd (dropout x TRAIN) =
        Inr (FloatV [b, 1024]
          [ys ! i / (1 - 4 / 10) * of_int \<lfloor>(1 - 4 / 10) + rng i\<rfloor>. i \<leftarrow> [0..<length ys]])"
    using d run_dropout_train[OF d(1)] by blast
  have ev: "md \<noteq> TRAIN \<longrightarrow> run V rng fd (dropout x md) = run V rng fd (dense x)"
    using run_dropout_eval by blast
  have p: "predictions x md =
     [(''classes'', ArgMax (logits x md) 1),
      (''probabilities'', Softmax (logits x md) ''softmax_tensor'')]"
    by (simp add: predictions_def)
  show ?thesis
    using logits_graph[of x md] p run_input_layer[OF x] run_conv1[OF x] run_pool1[OF x]
      run_conv2[OF x] run_pool2[OF x] run_pool2_flat[OF x] dr ev run_logits[OF x, of md]
    by blast
qed

theorem cnn_model_fn_architecture_witness:
  "run zero_vars zero_rng blank_feed (Input ''x'') = Inr (FloatV [1, 784] (replicate 784 0)) \<and>
   EVAL \<noteq> TRAIN \<and>
   (\<exists>ys. run zero_vars zero_rng blank_feed (pool2_flat (Input ''x'')) = Inr (FloatV [1, 7 * 7 * 64] ys)) \<and>
   run zero_vars zero_rng blank_feed (dropout (Input ''x'') EVAL)
     = run zero_vars zero_rng blank_feed (dense (Input ''x'')) \<and>
   (\<exists>ls. run zero_vars zero_rng blank_feed (logits (Input ''x'') EVAL) = Inr (FloatV [1, 10] ls))"
proof -
  have h: "run zero_vars zero_rng blank_feed (Input ''x'') = Inr (FloatV [1, 784] (replicate 784 0))"
    by (rule blank_feed_x)
  have m: "EVAL \<noteq> TRAIN" by simp
  from cnn_model_fn_architecture[OF h, of EVAL] h m show ?thesis by blast
qed

lemma cnn_model_fn_TRAIN:
  "cnn_model_fn [''x'' \<mapsto> x] (Some y) TRAIN =
     Inr (\<lparr>spec_mode = TRAIN, spec_predictions = None,
           spec_loss = Some (SoftmaxCrossEntropy (OneHot (Cast y Int32) 10) (logits x TRAIN)),
           spec_train_op = Some (Minimize (AdamOptimizer (1 / 10 ^ 4))
             (SoftmaxCrossEntropy (OneHot (Cast y Int32) 10) (logits x TRAIN)) GlobalStep),
           spec_eval_metric_ops = None, spec_export_outputs = None\<rparr>,
          summaries x y TRAIN)"
  by (simp add: cnn_model_fn_def loss_def onehot_labels_def train_op_def optimizer_def)

lemma cnn_model_fn_EVAL:
  "cnn_model_fn [''x'' \<mapsto> x] (Some y) EVAL =
     Inr (\<lparr>spec_mode = EVAL, spec_predictions = None,
           spec_loss = Some (SoftmaxCrossEntropy (OneHot (Cast y Int32) 10) (logits x EVAL)),
           spec_train_op = None,
           spec_eval_metric_ops = Some [(''accuracy'', Accuracy y (ArgMax (logits x EVAL) 1))],
           spec_export_outputs = None\<rparr>,
          summaries x y EVAL)"
  by (simp add: cnn_model_fn_def loss_def onehot_labels_def eval_metric_ops_def predictions_def)

lemma cnn_model_fn_PREDICT:
  "cnn_model_fn [''x'' \<mapsto> x] lab PREDICT =
     Inr (\<lparr>spec_mode = PREDICT,
           spec_predictions = Some [(''classes'', ArgMax (logits x PREDICT) 1),
             (''probabilities'', Softmax (logits x PREDICT) ''softmax_tensor'')],
           spec_loss = None, spec_train_op = None, spec_eval_metric_ops = None,
           spec_export_outputs = Some [(''serving_default'',
             PredictOutput [(''classes'', ArgMax (logits x PREDICT) 1),
               (''probabilities'', Softmax (logits x PREDICT) ''softmax_tensor'')])]\<rparr>,
          [])"
  by (simp add: cnn_model_fn_def predictions_def prediction_output_def
      DEFAULT_SERVING_SIGNATURE_DEF_KEY_def)

lemma loss_graph: "loss x y md = SoftmaxCrossEntropy (OneHot (Cast y Int32) 10) (logits x md)"
  by (simp add: loss_def onehot_labels_def)

text \<open>
  Claim C3. In the \<open>TRAIN\<close> mode the specification carries the loss and the update of the
  Adam optimizer that minimizes it, and nothing else; in the \<open>EVAL\<close> mode the loss and the
  accuracy metric of the labels against the classes; in the \<open>PREDICT\<close> mode the classes
  and the probabilities, and no loss. The loss is the softmax cross-entropy of the logits
  against the one-hot encoding, of depth 10, of the labels cast to \<^verbatim>\<open>int32\<close>. On a batch
  of \<open>b\<close> images and \<open>b\<close> labels it evaluates to a scalar, the mean over the batch of the
  categorical cross-entropy of each example: for a label \<open>k\<close> among the ten classes, minus
  the logarithm of \<open>exp\<close> of the logit of \<open>k\<close> over the sum of \<open>exp\<close> of the ten logits
  of the example, and 0 for a label that is no class. The classes evaluate to \<open>b\<close> indices
  and the probabilities to \<open>b\<close> rows of 10; the metric counts the labels the classes match.
\<close>

theorem cnn_model_fn_mode_outputs:
  assumes x: "run V rng fd x = Inr (FloatV [b, 784] xs)"
      and y: "run V rng fd y = Inr (IntV [b] ks)" and len: "length ks = b"
  shows "cnn_model_fn [''x'' \<mapsto> x] (Some y) TRAIN =
     Inr (\<lparr>spec_mode = TRAIN, spec_predictions = None,
           spec_loss = Some (SoftmaxCrossEntropy (OneHot (Cast y Int32) 10) (logits x TRAIN)),
           spec_train_op = Some (Minimize (AdamOptimizer (1 / 10 ^ 4))
             (SoftmaxCrossEntropy (OneHot (Cast y Int32) 10) (logits x TRAIN)) GlobalStep),
           spec_eval_metric_ops = None, spec_export_outputs = None\<rparr>,
          summaries x y TRAIN) \<and>
   cnn_model_fn [''x'' \<mapsto> x] (Some y) EVAL =
     Inr (\<lparr>spec_mode = EVAL, spec_predictions = None,
           spec_loss = Some (SoftmaxCrossEntropy (OneHot (Cast y Int32) 10) (logits x EVAL)),
           spec_train_op = None,
           spec_eval_metric_ops = Some [(''accuracy'', Accuracy y (ArgMax (logits x EVAL) 1))],
           spec_export_outputs = None\<rparr>,
          summaries x y EVAL) \<and>
   cnn_model_fn [''x'' \<mapsto> x] lab PREDICT =
     Inr (\<lparr>spec_mode = PREDICT,
           spec_predictions = Some [(''classes'', ArgMax (logits x PREDICT) 1),
             (''probabilities'', Softmax (logits x PREDICT) ''softmax_tensor'')],
           spec_loss = None, spec_train_op = None, spec_eval_metric_ops = None,
           spec_export_outputs = Some [(''serving_default'',
             PredictOutput [(''classes'', ArgMax (logits x PREDICT) 1),
               (''probabilities'', Softmax (logits x PREDICT) ''softmax_tensor'')])]\<rparr>,
          []) \<and>
   (\<exists>ls. run V rng fd (logits x md) = Inr (FloatV [b, 10] ls) \<and> length ls = b * 10 \<and>
      run V rng fd (SoftmaxCrossEntropy (OneHot (Cast y Int32) 10) (logits x md)) =
        Inr (FloatV [] [if b = 0 then 0
           else (\<Sum>i = 0..<b. if 0 \<le> ks ! i \<and> ks ! i < 10
                   then - ln (exp (ls ! (i * 10 + nat (ks ! i)))
                              / (\<Sum>j = 0..<10. exp (ls ! (i * 10 + j))))
                   else 0) / real b])) \<and>
   (\<exists>cs ps. run V rng fd (ArgMax (logits x md) 1) = Inr (IntV [b] cs) \<and> length cs = b \<and>
      run V rng fd (Softmax (logits x md) ''softmax_tensor'') = Inr (FloatV [b, 10] ps) \<and>
      length ps = b * 10 \<and>
      run_metric V rng fd (Accuracy y (ArgMax (logits x md) 1)) =
        Inr (length (filter (\<lambda>(k, c). k = c) (zip ks cs)), b))"
proof -
  obtain ls where ls: "run V rng fd (logits x md) = Inr (FloatV [b, 10] ls)"
    and ll: "length ls = b * 10"
    using run_logits[OF x, of md] by blast
  have l: "\<exists>ls. run V rng fd (logits x md) = Inr (FloatV [b, 10] ls) \<and> length ls = b * 10 \<and>
      run V rng fd (SoftmaxCrossEntropy (OneHot (Cast y Int32) 10) (logits x md)) =
        Inr (FloatV [] [if b = 0 then 0
           else (\<Sum>i = 0..<b. if 0 \<le> ks ! i \<and> ks ! i < 10
                   then - ln (exp (ls ! (i * 10 + nat (ks ! i)))
                              / (\<Sum>j = 0..<10. exp (ls ! (i * 10 + j))))
                   else 0) / real b])"
    using ls ll run_loss_explicit[OF x y len ls ll] unfolding loss_graph by blast
  obtain cs ps where
    c: "run V rng fd (ArgMax (logits x md) 1) = Inr (IntV [b] cs)" and lc: "length cs = b" and
    p: "run V rng fd (Softmax (logits x md) ''softmax_tensor'') = Inr (FloatV [b, 10] ps)" and
    lp: "length ps = b * 10"
    using predictions_run[OF x, of md] by blast
  have "run_metric V rng fd (Accuracy y (ArgMax (logits x md) 1)) =
        Inr (length (filter (\<lambda>(k, c). k = c) (zip ks cs)), b)"
    using run_accuracy[OF y c] len by simp
  with c lc p lp have q: "\<exists>cs ps. run V rng fd (ArgMax (logits x md) 1) = Inr (IntV [b] cs) \<and> length cs = b \<and>
      run V rng fd (Softmax (logits x md) ''softmax_tensor'') = Inr (FloatV [b, 10] ps) \<and>
      length ps = b * 10 \<and>
      run_metric V rng fd (Accuracy y (ArgMax (logits x md) 1)) =
        Inr (length (filter (\<lambda>(k, c). k = c) (zip ks cs)), b)"
    by blast
  show ?thesis
    using cnn_model_fn_TRAIN[of x y] cnn_model_fn_EVAL[of x y] cnn_model_fn_PREDICT[of x lab] l q
    by blast
qed

lemma ramp_vars_logits:
  assumes "run ramp_vars rng fd x = Inr (FloatV [1, 784] xs)"
  shows "run ramp_vars rng fd (logits x md) = Inr (FloatV [1, 10] (map real [0..<10]))"
proof -
  obtain ys where "run ramp_vars rng fd (dropout x md) = Inr (FloatV [1, 1024] ys)"
    using run_dropout[OF assms] by blast
  then show ?thesis
    by (simp add: logits_def ramp_vars_def map_replicate_const sum_list_replicate)
qed

theorem cnn_model_fn_mode_outputs_witness:
  "run ramp_vars zero_rng blank_feed (Input ''x'') = Inr (FloatV [1, 784] (replicate 784 0)) \<and>
   run ramp_vars zero_rng blank_feed (Input ''y'') = Inr (IntV [1] [3]) \<and>
   length [3::int] = 1 \<and>
   run ramp_vars zero_rng blank_feed (logits (Input ''x'') EVAL)
     = Inr (FloatV [1, 10] (map real [0..<10])) \<and>
   run ramp_vars zero_rng blank_feed
       (SoftmaxCrossEntropy (OneHot (Cast (Input ''y'') Int32) 10) (logits (Input ''x'') EVAL)) =
     Inr (FloatV [] [- ln (exp 3 / (\<Sum>j = 0..<10. exp (real j)))])"
proof -
  have h: "run ramp_vars zero_rng blank_feed (Input ''x'') = Inr (FloatV [1, 784] (replicate 784 0))"
    by (rule blank_feed_x)
  have g: "run ramp_vars zero_rng blank_feed (Input ''y'') = Inr (IntV [1] [3])"
    by (rule blank_feed_y)
  have n: "length [3::int] = 1" by simp
  have z: "run ramp_vars zero_rng blank_feed (logits (Input ''x'') EVAL)
      = Inr (FloatV [1, 10] (map real [0..<10]))"
    using h by (rule ramp_vars_logits)
  obtain ls where
    l: "run ramp_vars zero_rng blank_feed (logits (Input ''x'') EVAL) = Inr (FloatV [1, 10] ls)" and
    v: "run ramp_vars zero_rng blank_feed
          (SoftmaxCrossEntropy (OneHot (Cast (Input ''y'') Int32) 10) (logits (Input ''x'') EVAL)) =
        Inr (FloatV [] [if (1::nat) = 0 then 0
           else (\<Sum>i = 0..<1. if 0 \<le> [3::int] ! i \<and> [3::int] ! i < 10
                   then - ln (exp (ls ! (i * 10 + nat ([3] ! i)))
                              / (\<Sum>j = 0..<10. exp (ls ! (i * 10 + j))))
                   else 0) / real (1::nat)])"
    using cnn_model_fn_mode_outputs[OF h g n, of None EVAL,
        THEN conjunct2, THEN conjunct2, THEN conjunct2, THEN conjunct1]
    by blast
  from l z have ls: "ls = map real [0..<10]" by simp
  have s: "(\<Sum>j = 0..<10. exp (map real [0..<10] ! (0 * 10 + j))) = (\<Sum>j = 0..<10. exp (real j))"
    by (rule sum.cong) simp_all
  have k: "map real [0..<10] ! (0 * 10 + nat 3) = 3" by simp
  have "run ramp_vars zero_rng blank_feed
       (SoftmaxCrossEntropy (OneHot (Cast (Input ''y'') Int32) 10) (logits (Input ''x'') EVAL)) =
     Inr (FloatV [] [- ln (exp 3 / (\<Sum>j = 0..<10. exp (real j)))])"
    using v unfolding ls by (simp only: s k) simp
  with h g n z show ?thesis by blast
qed

section \<open>Outside training the outputs do not depend on the random samples\<close>

lemma run_logits_deterministic:
  assumes "md \<noteq> TRAIN" and "run V r1 fd x = run V r2 fd x"
  shows "run V r1 fd (logits x md) = run V r2 fd (logits x md)"
proof -
  have "run V r1 fd (dense x) = run V r2 fd (dense x)"
    using assms(2)
    by (simp add: dense_def pool2_flat_def pool2_def conv2_def pool1_def conv1_def input_layer_def)
  then have "run V r1 fd (dropout x md) = run V r2 fd (dropout x md)"
    using run_dropout_eval[OF assms(1), of V r1 fd x] run_dropout_eval[OF assms(1), of V r2 fd x]
    by simp
  then show ?thesis by (simp add: logits_def)
qed

lemma run_dict_pair:
  "run_dict V rng fd [(a, n), (c, m)] =
     (case run V rng fd n of Inl e \<Rightarrow> Inl e
      | Inr v \<Rightarrow> (case run V rng fd m of Inl e \<Rightarrow> Inl e | Inr w \<Rightarrow> Inr [(a, v), (c, w)]))"
  by (simp split: sum.splits)

text \<open>
  Claim C5. In a mode other than \<open>TRAIN\<close> the dropout of the graph is built inactive and
  returns the output of the dense layer unchanged. Two runs on the same checkpoint and
  the same inputs, in which the features evaluate to the same batch, then give the same
  classes and the same probabilities, whatever random samples each run draws.
\<close>

theorem non_train_outputs_deterministic:
  assumes "md \<noteq> TRAIN" and "run V r1 fd x = run V r2 fd x"
  shows "dropout x md = Dropout (dense x) (4 / 10) False \<and>
   run V r1 fd (dropout x md) = run V r1 fd (dense x) \<and>
   run V r1 fd (ArgMax (logits x md) 1) = run V r2 fd (ArgMax (logits x md) 1) \<and>
   run V r1 fd (Softmax (logits x md) ''softmax_tensor'')
     = run V r2 fd (Softmax (logits x md) ''softmax_tensor'') \<and>
   run_dict V r1 fd (predictions x md) = run_dict V r2 fd (predictions x md)"
proof -
  have l: "run V r1 fd (logits x md) = run V r2 fd (logits x md)"
    using assms by (rule run_logits_deterministic)
  have d: "dropout x md = Dropout (dense x) (4 / 10) False"
    using assms(1) by (simp add: dropout_def)
  have e: "run V r1 fd (dropout x md) = run V r1 fd (dense x)"
    using assms(1) by (rule run_dropout_eval)
  have c: "run V r1 fd (ArgMax (logits x md) 1) = run V r2 fd (ArgMax (logits x md) 1)"
    using l by simp
  have p: "run V r1 fd (Softmax (logits x md) ''softmax_tensor'')
     = run V r2 fd (Softmax (logits x md) ''softmax_tensor'')"
    using l by simp
  have "run_dict V r1 fd (predictions x md) = run_dict V r2 fd (predictions x md)"
    unfolding predictions_def run_dict_pair by (simp only: c p)
  with d e c p show ?thesis by blast
qed

theorem non_train_outputs_deterministic_witness:
  "EVAL \<noteq> TRAIN \<and>
   run zero_vars zero_rng blank_feed (Input ''x'') = run zero_vars (\<lambda>i. 1 / 2) blank_feed (Input ''x'') \<and>
   run zero_vars zero_rng blank_feed (ArgMax (logits (Input ''x'') EVAL) 1)
     = run zero_vars (\<lambda>i. 1 / 2) blank_feed (ArgMax (logits (Input ''x'') EVAL) 1) \<and>
   run zero_vars zero_rng blank_feed (Softmax (logits (Input ''x'') EVAL) ''softmax_tensor'')
     = run zero_vars (\<lambda>i. 1 / 2) blank_feed (Softmax (logits (Input ''x'') EVAL) ''softmax_tensor'')"
proof -
  have m: "EVAL \<noteq> TRAIN" by simp
  have h: "run zero_vars zero_rng blank_feed (Input ''x'')
      = run zero_vars (\<lambda>i. 1 / 2) blank_feed (Input ''x'')"
    by simp
  from non_train_outputs_deterministic[OF m h] m h show ?thesis by blast
qed

section \<open>The input reshape and the serving contract\<close>

lemma reshape_images:
  "tf_reshape [- 1, 28, 28, 1] (FloatV [b, n] xs) =
     (if (b * n) mod 784 = 0 then Inr (FloatV [(b * n) div 784, 28, 28, 1] xs)
      else Inl InvalidArgument)"
  by (simp add: tf_reshape_def)

lemma compatible_784: "compatible [None, Some 784] sh \<longleftrightarrow> (\<exists>b. sh = [b, 784])"
proof (cases sh)
  case Nil
  then show ?thesis by simp
next
  case (Cons a t)
  note outer = Cons
  show ?thesis
  proof (cases t)
    case Nil
    with outer show ?thesis by simp
  next
    case (Cons c u)
    with outer show ?thesis by (cases u) auto
  qed
qed

lemma run_feature_tensor:
  "run V rng fd feature_tensor = Inr v \<longleftrightarrow>
     (\<exists>b xs. fd ''Placeholder'' = Some v \<and> v = FloatV [b, 784] xs \<and> length xs = b * 784)"
proof (cases "fd ''Placeholder''")
  case None
  then show ?thesis by (simp add: feature_tensor_def)
next
  case (Some w)
  show ?thesis
  proof (cases w)
    case (FloatV sh xs)
    with Some show ?thesis
      by (auto simp: feature_tensor_def compatible_784)
  next
    case (IntV sh ks)
    with Some show ?thesis by (auto simp: feature_tensor_def)
  qed
qed

text \<open>
  Claim C9, as the code has it. The reshape of the input to \<open>[-1, 28, 28, 1]\<close> looks at
  the number of elements only: on a batch of \<open>b\<close> vectors of length \<open>n\<close> it succeeds exactly
  when \<open>b * n\<close> is a multiple of 784, and then holds \<open>b * n div 784\<close> images over the same
  buffer. With \<open>n = 784\<close> it succeeds for every batch size and keeps the batch. The serving
  input receiver gives the model function, under the key \<^verbatim>\<open>x\<close>, a placeholder that
  accepts exactly the float tensors of shape \<open>[b, 784]\<close>.
\<close>

theorem input_layer_reshape:
  assumes "run V rng fd x = Inr (FloatV [b, n] xs)"
  shows "run V rng fd (input_layer x) =
     (if (b * n) mod 784 = 0 then Inr (FloatV [(b * n) div 784, 28, 28, 1] xs)
      else Inl InvalidArgument) \<and>
   (n = 784 \<longrightarrow> run V rng fd (input_layer x) = Inr (FloatV [b, 28, 28, 1] xs)) \<and>
   sir_features serving_input_receiver_fn ''x'' = Some feature_tensor \<and>
   sir_receiver_tensors serving_input_receiver_fn ''x'' = Some feature_tensor \<and>
   (\<forall>fd' v. run V rng fd' feature_tensor = Inr v \<longleftrightarrow>
      (\<exists>b' xs'. fd' ''Placeholder'' = Some v \<and> v = FloatV [b', 784] xs' \<and> length xs' = b' * 784))"
proof -
  have r: "run V rng fd (input_layer x) =
     (if (b * n) mod 784 = 0 then Inr (FloatV [(b * n) div 784, 28, 28, 1] xs)
      else Inl InvalidArgument)"
    using assms by (simp add: input_layer_def reshape_images del: run.simps(1,2))
  then have k: "n = 784 \<longrightarrow> run V rng fd (input_layer x) = Inr (FloatV [b, 28, 28, 1] xs)"
    by simp
  have s: "sir_features serving_input_receiver_fn ''x'' = Some feature_tensor"
    "sir_receiver_tensors serving_input_receiver_fn ''x'' = Some feature_tensor"
    by (simp_all add: serving_input_receiver_fn_def)
  from r k s run_feature_tensor show ?thesis by blast
qed

theorem input_layer_reshape_witness:
  "run zero_vars zero_rng blank_feed (Input ''x'') = Inr (FloatV [1, 784] (replicate 784 0)) \<and>
   (784::nat) = 784 \<and>
   run zero_vars zero_rng blank_feed (input_layer (Input ''x''))
     = Inr (FloatV [1, 28, 28, 1] (replicate 784 0))"
proof -
  have h: "run zero_vars zero_rng blank_feed (Input ''x'') = Inr (FloatV [1, 784] (replicate 784 0))"
    by (rule blank_feed_x)
  from input_layer_reshape[OF h] h show ?thesis by blast
qed

theorem input_layer_reshape_counterexample:
  "run zero_vars zero_rng folded_feed (Input ''x'') = Inr (FloatV [2, 392] (replicate 784 0)) \<and>
   run zero_vars zero_rng folded_feed (input_layer (Input ''x''))
     = Inr (FloatV [1, 28, 28, 1] (replicate 784 0))"
  by (simp add: folded_feed_def input_layer_def tf_reshape_def)

section \<open>Labels outside the classes\<close>

lemma one_hot_row_out_of_range:
  assumes "k < 0 \<or> int d \<le> k"
  shows "one_hot_row d k = replicate d 0"
proof -
  have "map (\<lambda>j. if k = int j then 1 else 0 :: real) [0..<d] = map (\<lambda>j. 0) [0..<d]"
    by (rule map_cong) (use assms in auto)
  then show ?thesis by (simp add: one_hot_row_def map_replicate_const)
qed

lemma cross_entropy_row_zero: "cross_entropy_row (replicate d 0) ls = 0"
proof -
  have "sum_list (map2 (\<lambda>y p. y * ln p) (replicate d 0) ps) = 0" for ps :: "real list"
  proof (induction d arbitrary: ps)
    case 0
    then show ?case by simp
  next
    case (Suc d)
    then show ?case by (cases ps) simp_all
  qed
  then show ?thesis by (simp add: cross_entropy_row_def)
qed

text \<open>
  Claim C10. With labels that evaluate to \<open>b\<close> integers of any value, the model function
  returns a specification in the \<open>TRAIN\<close> and the \<open>EVAL\<close> mode, the one-hot encoding and
  the loss evaluate without an error, and the loss is a scalar. A label below 0 or from
  10 on is encoded as the row of ten zeros, and the cross-entropy of that example is 0.
\<close>

theorem out_of_range_label_has_loss:
  assumes x: "run V rng fd x = Inr (FloatV [b, 784] xs)"
      and y: "run V rng fd y = Inr (IntV [b] ks)" and len: "length ks = b"
  shows "(\<exists>sp smr. cnn_model_fn [''x'' \<mapsto> x] (Some y) TRAIN = Inr (sp, smr) \<and>
            spec_loss sp = Some (loss x y TRAIN)) \<and>
   (\<exists>sp smr. cnn_model_fn [''x'' \<mapsto> x] (Some y) EVAL = Inr (sp, smr) \<and>
            spec_loss sp = Some (loss x y EVAL)) \<and>
   run V rng fd (onehot_labels y) = Inr (FloatV [b, 10] (concat (map (one_hot_row 10) ks))) \<and>
   (\<exists>ls. run V rng fd (logits x md) = Inr (FloatV [b, 10] ls) \<and>
      run V rng fd (loss x y md) =
        Inr (FloatV [] [if b = 0 then 0
                        else sum_list [cross_entropy_row (one_hot_row 10 (ks ! i)) (row 10 ls i).
                                       i \<leftarrow> [0..<b]] / real b])) \<and>
   (\<forall>i<b. ks ! i < 0 \<or> 10 \<le> ks ! i \<longrightarrow>
      row 10 (concat (map (one_hot_row 10) ks)) i = replicate 10 0 \<and>
      one_hot_row 10 (ks ! i) = replicate 10 0 \<and>
      (\<forall>ls. cross_entropy_row (one_hot_row 10 (ks ! i)) ls = 0))"
proof -
  have t: "\<exists>sp smr. cnn_model_fn [''x'' \<mapsto> x] (Some y) TRAIN = Inr (sp, smr) \<and>
            spec_loss sp = Some (loss x y TRAIN)"
    by (simp add: cnn_model_fn_def)
  have e: "\<exists>sp smr. cnn_model_fn [''x'' \<mapsto> x] (Some y) EVAL = Inr (sp, smr) \<and>
            spec_loss sp = Some (loss x y EVAL)"
    by (simp add: cnn_model_fn_def)
  obtain ls where ls: "run V rng fd (logits x md) = Inr (FloatV [b, 10] ls)"
    using run_logits[OF x, of md] by blast
  have l: "\<exists>ls. run V rng fd (logits x md) = Inr (FloatV [b, 10] ls) \<and>
      run V rng fd (loss x y md) =
        Inr (FloatV [] [if b = 0 then 0
                        else sum_list [cross_entropy_row (one_hot_row 10 (ks ! i)) (row 10 ls i).
                                       i \<leftarrow> [0..<b]] / real b])"
    using ls run_loss[OF x y len ls] by blast
  have r: "row 10 (concat (map (one_hot_row 10) ks)) i = replicate 10 0 \<and>
      one_hot_row 10 (ks ! i) = replicate 10 0 \<and>
      (\<forall>ls. cross_entropy_row (one_hot_row 10 (ks ! i)) ls = 0)"
    if i: "i < b" and o: "ks ! i < 0 \<or> 10 \<le> ks ! i" for i
  proof -
    have z: "one_hot_row 10 (ks ! i) = replicate 10 0"
      using o one_hot_row_out_of_range[of "ks ! i" 10] by simp
    have "row 10 (concat (map (one_hot_row 10) ks)) i = one_hot_row 10 (ks ! i)"
      by (rule row_concat_map) (use i len in \<open>simp_all add: length_one_hot_row\<close>)
    with z show ?thesis by (simp add: cross_entropy_row_zero)
  qed
  from t e run_onehot_labels[OF y] l r show ?thesis by blast
qed

theorem out_of_range_label_has_loss_witness:
  "run zero_vars zero_rng stray_feed (Input ''x'') = Inr (FloatV [1, 784] (replicate 784 0)) \<and>
   run zero_vars zero_rng stray_feed (Input ''y'') = Inr (IntV [1] [12]) \<and>
   length [12::int] = 1 \<and> (0::nat) < 1 \<and> (10::int) \<le> [12] ! 0 \<and>
   run zero_vars zero_rng stray_feed (onehot_labels (Input ''y''))
     = Inr (FloatV [1, 10] (concat (map (one_hot_row 10) [12]))) \<and>
   row 10 (concat (map (one_hot_row 10) [12])) 0 = replicate 10 0 \<and>
   (\<exists>ls. run zero_vars zero_rng stray_feed (loss (Input ''x'') (Input ''y'') EVAL) =
        Inr (FloatV [] [if (1::nat) = 0 then 0
                        else sum_list [cross_entropy_row (one_hot_row 10 ([12] ! i)) (row 10 ls i).
                                       i \<leftarrow> [0..<1]] / real (1::nat)]))"
proof -
  have h: "run zero_vars zero_rng stray_feed (Input ''x'') = Inr (FloatV [1, 784] (replicate 784 0))"
    by (simp add: stray_feed_def)
  have g: "run zero_vars zero_rng stray_feed (Input ''y'') = Inr (IntV [1] [12])"
    by (simp add: stray_feed_def)
  have n: "length [12::int] = 1" by simp
  have i: "(0::nat) < 1" by simp
  have o: "(10::int) \<le> [12] ! 0" by simp
  from out_of_range_label_has_loss[OF h g n, of EVAL] h g n i o show ?thesis by blast
qed

section \<open>The order of the stages\<close>



section \<open>The batches of the evaluation\<close>

lemma concat_rows_take: "concat (map (row bs xs) [0..<k]) = take (k * bs) xs"
proof (induction k)
  case 0
  then show ?case by simp
next
  case (Suc k)
  have "take (k * bs) xs @ take bs (drop (k * bs) xs) = take (k * bs + bs) xs"
    by (simp add: take_add)
  with Suc show ?case by (simp add: row_def add.commute)
qed

lemma batches_cover: "0 < bs \<Longrightarrow> length xs \<le> ((length xs + bs - 1) div bs) * bs"
proof -
  assume b: "0 < bs"
  let ?n = "length xs"
  have "(?n + bs - 1) div bs * bs = (?n + bs - 1) - (?n + bs - 1) mod bs"
    by (simp add: minus_mod_eq_div_mult)
  moreover have "(?n + bs - 1) mod bs \<le> bs - 1" using b
    by (metis Suc_pred' less_Suc_eq_le mod_less_divisor)
  ultimately show ?thesis using b by linarith
qed

lemma concat_batches:
  assumes "0 < bs"
  shows "concat (map (row bs xs) [0..<(length xs + bs - 1) div bs]) = xs"
  using batches_cover[OF assms, of xs] by (simp add: concat_rows_take)

lemma take_slice:
  assumes "length xs = n * d"
  shows "take ((min (i * bs + bs) n - i * bs) * d) (drop (i * bs * d) xs) = row (bs * d) xs i"
proof (cases "i * bs + bs \<le> n")
  case True
  then have "min (i * bs + bs) n - i * bs = bs" by simp
  then show ?thesis by (simp add: row_def mult.assoc)
next
  case False
  then have m: "min (i * bs + bs) n - i * bs = n - i * bs" by simp
  have l: "length (drop (i * bs * d) xs) = (n - i * bs) * d"
    using assms by (simp add: diff_mult_distrib)
  have "n - i * bs \<le> bs" using False by simp
  then have "(n - i * bs) * d \<le> bs * d" by simp
  then have "take (bs * d) (drop (i * bs * d) xs) = drop (i * bs * d) xs"
    using l by simp
  moreover have "take ((n - i * bs) * d) (drop (i * bs * d) xs) = drop (i * bs * d) xs"
    using l by simp
  ultimately show ?thesis using m by (simp add: row_def mult.assoc)
qed

lemma length_slice:
  assumes "length xs = n * d"
  shows "length (row (bs * d) xs i) = (min (i * bs + bs) n - i * bs) * d"
proof -
  have "length (take ((min (i * bs + bs) n - i * bs) * d) (drop (i * bs * d) xs))
      = (min (i * bs + bs) n - i * bs) * d"
  proof (cases "i * bs + bs \<le> n")
    case True
    then have "i * bs * d + bs * d \<le> n * d"
      by (metis add_mult_distrib mult_le_mono1)
    with True assms show ?thesis by simp
  next
    case False
    then show ?thesis using assms by (simp add: diff_mult_distrib)
  qed
  then show ?thesis by (simp only: take_slice[OF assms])
qed

lemma slice0_images:
  assumes "length xs = n * 784"
  shows "slice0 (i * bs) (i * bs + bs) (FloatV [n, 784] xs) =
           FloatV [min (i * bs + bs) n - i * bs, 784] (row (bs * 784) xs i)"
  using take_slice[OF assms, of i bs] by simp

lemma slice0_labels:
  assumes "length ks = n"
  shows "slice0 (i * bs) (i * bs + bs) (IntV [n] ks) =
           IntV [min (i * bs + bs) n - i * bs] (row bs ks i)"
  using take_slice[of ks n 1 i bs] assms by simp

lemma length_label_slice:
  assumes "length ks = n"
  shows "length (row bs ks i) = min (i * bs + bs) n - i * bs"
  using length_slice[of ks n 1 bs i] assms by simp

lemma numpy_batches_in_order:
  assumes "length xs = n * 784" and "length ks = n"
  shows "numpy_batches (numpy_input_fn (''x'', FloatV [n, 784] xs) (IntV [n] ks) 1 False) =
     Inr (map (\<lambda>i. [''x'' \<mapsto> FloatV [min (i * 128 + 128) n - i * 128, 784] (row (128 * 784) xs i),
                     ''y'' \<mapsto> IntV [min (i * 128 + 128) n - i * 128] (row 128 ks i)])
            [0..<(n + 128 - 1) div 128])"
  using assms
  by (simp add: numpy_batches_def numpy_input_fn_def slice0_images slice0_labels
      del: slice0.simps)

lemma eval_loop_totals:
  assumes "\<And>fd. fd \<in> set fds \<Longrightarrow> \<exists>v. run V rng fd l = Inr (FloatV [] [v])"
      and "\<And>fd. fd \<in> set fds \<Longrightarrow> run_metric V rng fd m = Inr (cf fd, kf fd)"
  shows "\<exists>st'. eval_loop V rng l m fds st = Inr st' \<and>
           es_total st' = es_total st + sum_list (map cf fds) \<and>
           es_count st' = es_count st + sum_list (map kf fds) \<and>
           es_batches st' = es_batches st + length fds"
  using assms
proof (induction fds arbitrary: st)
  case Nil
  then show ?case by simp
next
  case (Cons fd fds)
  obtain v where v: "run V rng fd l = Inr (FloatV [] [v])"
    using Cons.prems(1)[of fd] by auto
  have mt: "run_metric V rng fd m = Inr (cf fd, kf fd)"
    using Cons.prems(2)[of fd] by simp
  let ?st = "\<lparr>es_loss_sum = es_loss_sum st + v, es_batches = Suc (es_batches st),
               es_total = es_total st + cf fd, es_count = es_count st + kf fd\<rparr>"
  have step: "eval_loop V rng l m (fd # fds) st = eval_loop V rng l m fds ?st"
    using v mt by simp
  obtain st' where "eval_loop V rng l m fds ?st = Inr st'"
    "es_total st' = es_total ?st + sum_list (map cf fds)"
    "es_count st' = es_count ?st + sum_list (map kf fds)"
    "es_batches st' = es_batches ?st + length fds"
    using Cons.IH[of ?st] Cons.prems by auto
  with step show ?case by simp
qed

lemma batch_runs:
  assumes rx: "length rx = k * 784" and ry: "length ry = k"
  shows "\<exists>v cs. run V rng [''x'' \<mapsto> FloatV [k, 784] rx, ''y'' \<mapsto> IntV [k] ry]
              (loss (Input ''x'') (Input ''y'') EVAL) = Inr (FloatV [] [v]) \<and>
           run V rng [''x'' \<mapsto> FloatV [k, 784] rx, ''y'' \<mapsto> IntV [k] ry]
              (ArgMax (logits (Input ''x'') EVAL) 1) = Inr (IntV [k] cs) \<and>
           run_metric V rng [''x'' \<mapsto> FloatV [k, 784] rx, ''y'' \<mapsto> IntV [k] ry]
              (Accuracy (Input ''y'') (ArgMax (logits (Input ''x'') EVAL) 1)) =
             Inr (length (filter (\<lambda>(k, c). k = c) (zip ry cs)), k)"
proof -
  let ?fd = "[''x'' \<mapsto> FloatV [k, 784] rx, ''y'' \<mapsto> IntV [k] ry]"
  have x: "run V rng ?fd (Input ''x'') = Inr (FloatV [k, 784] rx)" using rx by simp
  have y: "run V rng ?fd (Input ''y'') = Inr (IntV [k] ry)" using ry by simp
  obtain ls where ls: "run V rng ?fd (logits (Input ''x'') EVAL) = Inr (FloatV [k, 10] ls)"
    using run_logits[OF x, of EVAL] by blast
  obtain cs where c: "run V rng ?fd (ArgMax (logits (Input ''x'') EVAL) 1) = Inr (IntV [k] cs)"
    using predictions_run[OF x, of EVAL] by blast
  have "run_metric V rng ?fd (Accuracy (Input ''y'') (ArgMax (logits (Input ''x'') EVAL) 1)) =
             Inr (length (filter (\<lambda>(k, c). k = c) (zip ry cs)), k)"
    using run_accuracy[OF y c] ry by simp
  with run_loss[OF x y ry ls] c show ?thesis by blast
qed

lemma estimator_evaluate_accuracy:
  assumes lx: "length xs = n * 784" and ly: "length ks = n"
  shows "\<exists>res.
     estimator_evaluate cnn_model_fn ckpt rng
        (numpy_input_fn (''x'', FloatV [n, 784] xs) (IntV [n] ks) 1 False) = Inr res \<and>
     accuracy res =
       (if n = 0 then 0
        else real (sum_list (map
               (\<lambda>fd. case run_metric (ckpt_variables ckpt) rng fd
                            (Accuracy (Input ''y'') (ArgMax (logits (Input ''x'') EVAL) 1)) of
                       Inl e \<Rightarrow> 0 | Inr (c, k) \<Rightarrow> c)
               (map (\<lambda>i. [''x'' \<mapsto> FloatV [min (i * 128 + 128) n - i * 128, 784]
                                     (row (128 * 784) xs i),
                           ''y'' \<mapsto> IntV [min (i * 128 + 128) n - i * 128] (row 128 ks i)])
                  [0..<(n + 128 - 1) div 128]))) / real n) \<and>
     global_step res = ckpt_global_step ckpt"
proof -
  define V where "V = ckpt_variables ckpt"
  define M where "M = Accuracy (Input ''y'') (ArgMax (logits (Input ''x'') EVAL) 1)"
  define L where "L = loss (Input ''x'') (Input ''y'') EVAL"
  define kb where "kb = (\<lambda>i. min (i * 128 + 128) n - i * 128)"
  define fdf where "fdf = (\<lambda>i. [''x'' \<mapsto> FloatV [min (i * 128 + 128) n - i * 128, 784]
                                     (row (128 * 784) xs i),
                           ''y'' \<mapsto> IntV [min (i * 128 + 128) n - i * 128] (row 128 ks i)])"
  define nb where "nb = (n + 128 - 1) div 128"
  define cf where "cf = (\<lambda>fd. case run_metric V rng fd M of Inl e \<Rightarrow> 0 | Inr (c, k) \<Rightarrow> c)"
  define kf where "kf = (\<lambda>fd. case run_metric V rng fd M of Inl e \<Rightarrow> 0 | Inr (c, k) \<Rightarrow> k)"
  have nbs: "numpy_batches (numpy_input_fn (''x'', FloatV [n, 784] xs) (IntV [n] ks) 1 False)
      = Inr (map fdf [0..<nb])"
    unfolding fdf_def nb_def using lx ly by (rule numpy_batches_in_order)
  have each: "\<exists>v c. run V rng (fdf i) L = Inr (FloatV [] [v]) \<and>
      run_metric V rng (fdf i) M = Inr (c, kb i)" for i
  proof -
    have a: "length (row (128 * 784) xs i) = (min (i * 128 + 128) n - i * 128) * 784"
      using lx by (rule length_slice)
    have b: "length (row 128 ks i) = min (i * 128 + 128) n - i * 128"
      using ly by (rule length_label_slice)
    show ?thesis unfolding fdf_def L_def M_def kb_def
      using batch_runs[OF a b, of V rng] by blast
  qed
  have l: "\<exists>v. run V rng fd L = Inr (FloatV [] [v])" if mem: "fd \<in> set (map fdf [0..<nb])" for fd
  proof -
    obtain i where "fd = fdf i" using mem by auto
    then show ?thesis using each[of i] by blast
  qed
  have kfi: "kf (fdf i) = kb i" for i
  proof -
    obtain c where "run_metric V rng (fdf i) M = Inr (c, kb i)" using each[of i] by blast
    then show ?thesis by (simp add: kf_def del: run_metric.simps)
  qed
  have m: "run_metric V rng fd M = Inr (cf fd, kf fd)" if mem: "fd \<in> set (map fdf [0..<nb])" for fd
  proof -
    obtain i where "fd = fdf i" using mem by auto
    moreover obtain c where "run_metric V rng (fdf i) M = Inr (c, kb i)" using each[of i] by blast
    ultimately show ?thesis by (simp add: cf_def kf_def del: run_metric.simps)
  qed
  obtain st where st: "eval_loop V rng L M (map fdf [0..<nb])
        \<lparr>es_loss_sum = 0, es_batches = 0, es_total = 0, es_count = 0\<rparr> = Inr st"
    and tot: "es_total st = sum_list (map cf (map fdf [0..<nb]))"
    and cnt: "es_count st = sum_list (map kf (map fdf [0..<nb]))"
    using eval_loop_totals[of "map fdf [0..<nb]" V rng L M cf kf
        "\<lparr>es_loss_sum = 0, es_batches = 0, es_total = 0, es_count = 0\<rparr>", OF l m]
    by auto
  have "sum_list (map kf (map fdf [0..<nb])) = sum_list (map (\<lambda>i. length (row 128 ks i)) [0..<nb])"
    using length_label_slice[OF ly, of 128] by (simp add: comp_def kfi kb_def)
  also have "\<dots> = length (concat (map (row 128 ks) [0..<nb]))"
    by (simp add: length_concat comp_def)
  also have "\<dots> = n"
    using concat_batches[of 128 ks] ly by (simp add: nb_def)
  finally have cnt': "es_count st = n" using cnt by simp
  have spec: "cnn_model_fn [''x'' \<mapsto> Input ''x''] (Some (Input ''y'')) EVAL =
     Inr (\<lparr>spec_mode = EVAL, spec_predictions = None, spec_loss = Some L, spec_train_op = None,
           spec_eval_metric_ops = Some [(''accuracy'', M)], spec_export_outputs = None\<rparr>,
          summaries (Input ''x'') (Input ''y'') EVAL)"
    by (simp add: cnn_model_fn_def eval_metric_ops_def predictions_def L_def M_def)
  have "estimator_evaluate cnn_model_fn ckpt rng
        (numpy_input_fn (''x'', FloatV [n, 784] xs) (IntV [n] ks) 1 False) =
      Inr \<lparr>accuracy = (if es_count st = 0 then 0 else real (es_total st) / real (es_count st)),
           loss_mean = (if es_batches st = 0 then 0 else es_loss_sum st / real (es_batches st)),
           global_step = ckpt_global_step ckpt\<rparr>"
    unfolding estimator_evaluate_def nbs
    using st by (simp add: numpy_input_fn_def spec V_def del: eval_loop.simps)
  then show ?thesis
    using tot cnt' unfolding cf_def fdf_def nb_def V_def M_def by simp
qed

lemma concat_image_batches:
  assumes "length xs = n * 784"
  shows "concat (map (row (128 * 784) xs) [0..<(n + 128 - 1) div 128]) = xs"
proof -
  have "n \<le> (n + 128 - 1) div 128 * 128"
    using batches_cover[of 128 "replicate n ()"] by simp
  then have "n * 784 \<le> (n + 128 - 1) div 128 * 128 * 784"
    by (rule mult_le_mono1)
  then have "length xs \<le> (n + 128 - 1) div 128 * (128 * 784)"
    using assms by (simp add: mult.assoc)
  then show ?thesis by (simp only: concat_rows_take take_all)
qed

text \<open>
  Claim C7. When the load and the training have returned, and the test split holds \<open>n\<close>
  images of 784 pixels with \<open>n\<close> labels, the evaluation reads the split once, in order and
  unshuffled: its batches are the successive blocks of 128 examples (the last one
  shorter), and put end to end they are the split. The accuracy it reports is the number
  of labels the classes match, summed over the batches, divided by \<open>n\<close>; the script
  prints this result once, before any prediction.
\<close>

theorem evaluation_single_pass:
  assumes load: "read_data_sets fw (data_dir FLAGS) = Inr mnist"
      and trained: "estimator_train fw cnn_model_fn (model_dir FLAGS)
                      (generate_input_fn (train mnist) BATCH_SIZE) (num_steps FLAGS)
                      [LoggingTensorHook tensors_to_log (logging_hook_iter FLAGS)] = Inr ckpt"
      and X: "images (test mnist) = FloatV [n, 784] xs" and lx: "length xs = n * 784"
      and Y: "labels (test mnist) = IntV [n] ks" and ly: "length ks = n"
  shows "\<exists>res rest.
     ni_num_epochs (numpy_input_fn (''x'', images (test mnist)) (labels (test mnist)) 1 False) = 1 \<and>
     ni_shuffle (numpy_input_fn (''x'', images (test mnist)) (labels (test mnist)) 1 False) = False \<and>
     numpy_batches (numpy_input_fn (''x'', images (test mnist)) (labels (test mnist)) 1 False) =
       Inr (map (\<lambda>i. [''x'' \<mapsto> FloatV [min (i * 128 + 128) n - i * 128, 784]
                                 (row (128 * 784) xs i),
                       ''y'' \<mapsto> IntV [min (i * 128 + 128) n - i * 128] (row 128 ks i)])
              [0..<(n + 128 - 1) div 128]) \<and>
     concat (map (row (128 * 784) xs) [0..<(n + 128 - 1) div 128]) = xs \<and>
     concat (map (row 128 ks) [0..<(n + 128 - 1) div 128]) = ks \<and>
     estimator_evaluate cnn_model_fn ckpt (session_rng fw)
        (numpy_input_fn (''x'', images (test mnist)) (labels (test mnist)) 1 False) = Inr res \<and>
     accuracy res =
       (if n = 0 then 0
        else real (sum_list (map
               (\<lambda>fd. case run_metric (ckpt_variables ckpt) (session_rng fw) fd
                            (Accuracy (Input ''y'') (ArgMax (logits (Input ''x'') EVAL) 1)) of
                       Inl e \<Rightarrow> 0 | Inr (c, k) \<Rightarrow> c)
               (map (\<lambda>i. [''x'' \<mapsto> FloatV [min (i * 128 + 128) n - i * 128, 784]
                                     (row (128 * 784) xs i),
                           ''y'' \<mapsto> IntV [min (i * 128 + 128) n - i * 128] (row 128 ks i)])
                  [0..<(n + 128 - 1) div 128]))) / real n) \<and>
     stdout (main fw FLAGS) = PrintEval res # map PrintPrediction rest"
proof -
  obtain res where
    ev: "estimator_evaluate cnn_model_fn ckpt (session_rng fw)
        (numpy_input_fn (''x'', FloatV [n, 784] xs) (IntV [n] ks) 1 False) = Inr res" and
    acc: "accuracy res =
       (if n = 0 then 0
        else real (sum_list (map
               (\<lambda>fd. case run_metric (ckpt_variables ckpt) (session_rng fw) fd
                            (Accuracy (Input ''y'') (ArgMax (logits (Input ''x'') EVAL) 1)) of
                       Inl e \<Rightarrow> 0 | Inr (c, k) \<Rightarrow> c)
               (map (\<lambda>i. [''x'' \<mapsto> FloatV [min (i * 128 + 128) n - i * 128, 784]
                                     (row (128 * 784) xs i),
                           ''y'' \<mapsto> IntV [min (i * 128 + 128) n - i * 128] (row 128 ks i)])
                  [0..<(n + 128 - 1) div 128]))) / real n)"
    using estimator_evaluate_accuracy[OF lx ly, of ckpt "session_rng fw"] by blast
  define rest where "rest =
    (case estimator_predict cnn_model_fn ckpt (session_rng fw)
            (numpy_input_fn (''x'', fst (next_batch fw (test mnist) 20))
               (snd (next_batch fw (test mnist) 20)) 1 False) of
       Inl e \<Rightarrow> [] | Inr prs \<Rightarrow> prs)"
  have out: "stdout (main fw FLAGS) = PrintEval res # map PrintPrediction rest"
    unfolding rest_def using ev
    by (simp add: main_def stage_def load trained X Y split: sum.splits)
  have cfg: "ni_num_epochs (numpy_input_fn (''x'', images (test mnist)) (labels (test mnist)) 1 False) = 1"
    "ni_shuffle (numpy_input_fn (''x'', images (test mnist)) (labels (test mnist)) 1 False) = False"
    by (simp_all add: numpy_input_fn_def)
  have cy: "concat (map (row 128 ks) [0..<(n + 128 - 1) div 128]) = ks"
    using concat_batches[of 128 ks] ly by simp
  show ?thesis
    using cfg numpy_batches_in_order[OF lx ly] concat_image_batches[OF lx] cy ev acc out
    unfolding X Y by blast
qed

theorem evaluation_single_pass_witness:
  "read_data_sets tiny (data_dir sample_flags)
     = Inr \<lparr>train = blank_split, validation = blank_split, test = blank_split\<rparr> \<and>
   estimator_train tiny cnn_model_fn (model_dir sample_flags)
       (generate_input_fn blank_split BATCH_SIZE) (num_steps sample_flags)
       [LoggingTensorHook tensors_to_log (logging_hook_iter sample_flags)]
     = Inr \<lparr>ckpt_variables = zero_vars, ckpt_global_step = 20000\<rparr> \<and>
   images blank_split = FloatV [1, 784] (replicate 784 0) \<and>
   length (replicate 784 (0::real)) = 1 * 784 \<and>
   labels blank_split = IntV [1] [3] \<and> length [3::int] = 1 \<and>
   (\<exists>res rest.
      estimator_evaluate cnn_model_fn \<lparr>ckpt_variables = zero_vars, ckpt_global_step = 20000\<rparr>
          zero_rng (numpy_input_fn (''x'', images blank_split) (labels blank_split) 1 False)
        = Inr res \<and>
      stdout (main tiny sample_flags) = PrintEval res # map PrintPrediction rest)"
proof -
  let ?mnist = "\<lparr>train = blank_split, validation = blank_split, test = blank_split\<rparr>"
  let ?ckpt = "\<lparr>ckpt_variables = zero_vars, ckpt_global_step = 20000\<rparr>"
  have a: "read_data_sets tiny (data_dir sample_flags) = Inr ?mnist"
    by (simp add: tiny_def)
  have b: "estimator_train tiny cnn_model_fn (model_dir sample_flags)
       (generate_input_fn (train ?mnist) BATCH_SIZE) (num_steps sample_flags)
       [LoggingTensorHook tensors_to_log (logging_hook_iter sample_flags)] = Inr ?ckpt"
    by (simp add: tiny_def sample_flags_def)
  have c: "images (test ?mnist) = FloatV [1, 784] (replicate 784 0)"
    by (simp add: blank_split_def)
  have d: "length (replicate 784 (0::real)) = 1 * 784" by simp
  have e: "labels (test ?mnist) = IntV [1] [3]" by (simp add: blank_split_def)
  have f: "length [3::int] = 1" by simp
  have r: "session_rng tiny = zero_rng" by (simp add: tiny_def)
  have t: "test ?mnist = blank_split" "train ?mnist = blank_split" by simp_all
  from evaluation_single_pass[OF a b c d e f] obtain res rest where
    "estimator_evaluate cnn_model_fn ?ckpt (session_rng tiny)
        (numpy_input_fn (''x'', images (test ?mnist)) (labels (test ?mnist)) 1 False) = Inr res"
    "stdout (main tiny sample_flags) = PrintEval res # map PrintPrediction rest"
    by blast
  then have "\<exists>res rest.
      estimator_evaluate cnn_model_fn ?ckpt zero_rng
          (numpy_input_fn (''x'', images blank_split) (labels blank_split) 1 False) = Inr res \<and>
      stdout (main tiny sample_flags) = PrintEval res # map PrintPrediction rest"
    unfolding r t by blast
  with a b c d e f show ?thesis unfolding t by blast
qed

end
